theory Spec2Isabelle
  imports Complex_Main
begin

section \<open>JavaScript numbers\<close>

text \<open>
  A JavaScript number is modelled as an exact real, with the three non-finite values
  the code can meet (\<open>parseFloat\<close> returns \<open>NaN\<close> on unparsable text and
  \<open>Infinity\<close> on the text \<open>Infinity\<close>). Rounding of binary floating point is not
  modelled; negative zero is identified with zero.
\<close>

datatype jsnum = NaN | NegInf | PosInf | Num real

fun isNaN :: "jsnum \<Rightarrow> bool" where
  "isNaN NaN = True"
| "isNaN _ = False"

text \<open>\<open>a < b\<close> on numbers: false as soon as one side is \<open>NaN\<close>.\<close>

fun js_lt :: "jsnum \<Rightarrow> jsnum \<Rightarrow> bool" where
  "js_lt NaN _ = False"
| "js_lt _ NaN = False"
| "js_lt NegInf NegInf = False"
| "js_lt NegInf _ = True"
| "js_lt PosInf _ = False"
| "js_lt (Num a) NegInf = False"
| "js_lt (Num a) PosInf = True"
| "js_lt (Num a) (Num b) = (a < b)"

definition js_gt :: "jsnum \<Rightarrow> jsnum \<Rightarrow> bool" where
  "js_gt a b = js_lt b a"

text \<open>\<open>a <= b\<close>: false on \<open>NaN\<close>, otherwise the negation of \<open>b < a\<close>.\<close>

definition js_le :: "jsnum \<Rightarrow> jsnum \<Rightarrow> bool" where
  "js_le a b = (\<not> isNaN a \<and> \<not> isNaN b \<and> \<not> js_lt b a)"

definition js_ge :: "jsnum \<Rightarrow> jsnum \<Rightarrow> bool" where
  "js_ge a b = js_le b a"

text \<open>\<open>Math.min\<close> and \<open>Math.max\<close> return \<open>NaN\<close> when an argument is \<open>NaN\<close>.\<close>

definition Math_min :: "jsnum \<Rightarrow> jsnum \<Rightarrow> jsnum" where
  "Math_min a b = (if isNaN a \<or> isNaN b then NaN else if js_lt b a then b else a)"

definition Math_max :: "jsnum \<Rightarrow> jsnum \<Rightarrow> jsnum" where
  "Math_max a b = (if isNaN a \<or> isNaN b then NaN else if js_lt a b then b else a)"

fun Math_abs :: "jsnum \<Rightarrow> jsnum" where
  "Math_abs NaN = NaN"
| "Math_abs NegInf = PosInf"
| "Math_abs PosInf = PosInf"
| "Math_abs (Num a) = Num \<bar>a\<bar>"

text \<open>\<open>a - b\<close>: the difference of two equal infinities is \<open>NaN\<close>.\<close>

fun js_sub :: "jsnum \<Rightarrow> jsnum \<Rightarrow> jsnum" where
  "js_sub NaN _ = NaN"
| "js_sub _ NaN = NaN"
| "js_sub PosInf PosInf = NaN"
| "js_sub NegInf NegInf = NaN"
| "js_sub PosInf _ = PosInf"
| "js_sub NegInf _ = NegInf"
| "js_sub (Num a) PosInf = NegInf"
| "js_sub (Num a) NegInf = PosInf"
| "js_sub (Num a) (Num b) = Num (a - b)"

text \<open>Truthiness of a number (\<open>x || 1\<close>, \<open>x && ...\<close>): \<open>NaN\<close> and zero are falsy.\<close>

fun truthy :: "jsnum \<Rightarrow> bool" where
  "truthy NaN = False"
| "truthy (Num a) = (a \<noteq> 0)"
| "truthy _ = True"

text \<open>\<open>a !== b\<close> on numbers: \<open>NaN\<close> is unequal to everything, itself included.\<close>

definition js_strict_neq :: "jsnum \<Rightarrow> jsnum \<Rightarrow> bool" where
  "js_strict_neq a b = (isNaN a \<or> isNaN b \<or> a \<noteq> b)"

section \<open>Numbers as text\<close>

text \<open>
  The fallback tier keeps the rate as text: \<open>settings[key].toString()\<close> writes it and
  \<open>parseFloat(stored)\<close> reads it. Both belong to the platform and are modelled after the
  language standard, on exact reals: \<open>js_toString\<close> is \<open>Number::toString\<close> in radix 10
  and \<open>js_parseFloat\<close> reads the longest prefix that is a decimal literal, after the
  leading white space. The digits written are those of the exact decimal expansion (for
  a number with a short expansion, the shortest text that reads back as the number); an
  expansion that has not ended after \<open>maxFractionDigits\<close> fractional digits is cut there
  (no double has more than 1074). Characters are 8-bit, so of the white space the
  characters up to \<open>U+00FF\<close> are modelled, and results are not rounded to doubles.
\<close>

definition decimalDigits :: string where
  "decimalDigits = ''0123456789''"

definition isDigit :: "char \<Rightarrow> bool" where
  "isDigit c = (c \<in> set decimalDigits)"

text \<open>The digit for a number below ten, and the number a digit stands for.\<close>

definition digitChar :: "nat \<Rightarrow> char" where
  "digitChar d = decimalDigits ! d"

definition digitValue :: "char \<Rightarrow> nat" where
  "digitValue c = length (takeWhile (\<lambda>d. d \<noteq> c) decimalDigits)"

text \<open>The value of a string of decimal digits, and the digits of a number.\<close>

definition digitsValue :: "string \<Rightarrow> nat" where
  "digitsValue ds = foldl (\<lambda>acc c. 10 * acc + digitValue c) 0 ds"

fun digitsOf :: "nat \<Rightarrow> string" where
  "digitsOf n = (if n < 10 then [digitChar n] else digitsOf (n div 10) @ [digitChar (n mod 10)])"

declare digitsOf.simps [simp del]

text \<open>\<open>parseFloat\<close>: white space, sign, \<open>Infinity\<close> or digits with an optional fraction and exponent.\<close>

definition isWhiteSpace :: "char \<Rightarrow> bool" where
  "isWhiteSpace c = (c = CHR '' '' \<or> c = CHR 0x09 \<or> c = CHR 0x0A \<or> c = CHR 0x0B
                     \<or> c = CHR 0x0C \<or> c = CHR 0x0D \<or> c = CHR 0xA0)"

text \<open>\<open>x\<close> times ten to the power \<open>e\<close>.\<close>

definition scale10 :: "real \<Rightarrow> int \<Rightarrow> real" where
  "scale10 x e = (if 0 \<le> e then x * 10 ^ nat e else x / 10 ^ nat (- e))"

text \<open>
  The exponent a literal ends with: \<open>e\<close> or \<open>E\<close>, an optional sign and digits; without
  digits there is no exponent part and the value is 0.
\<close>

definition exponentPart :: "string \<Rightarrow> int" where
  "exponentPart cs =
     (case cs of
        [] \<Rightarrow> 0
      | c # t \<Rightarrow>
          if c = CHR ''e'' \<or> c = CHR ''E'' then
            (case t of
               [] \<Rightarrow> 0
             | sign # u \<Rightarrow>
                 if sign = CHR ''-'' then - int (digitsValue (takeWhile isDigit u))
                 else if sign = CHR ''+'' then int (digitsValue (takeWhile isDigit u))
                 else int (digitsValue (takeWhile isDigit t)))
          else 0)"

text \<open>
  The unsigned literal at the start of a text: \<open>NaN\<close> when neither the integer part nor
  the fraction has a digit.
\<close>

definition strUnsignedDecimalLiteral :: "string \<Rightarrow> jsnum" where
  "strUnsignedDecimalLiteral cs =
     (if take 8 cs = ''Infinity'' then PosInf
      else
        let intDigits = takeWhile isDigit cs;
            afterInt = dropWhile isDigit cs;
            hasPoint = (case afterInt of [] \<Rightarrow> False | c # t \<Rightarrow> c = CHR ''.'');
            fracDigits = (if hasPoint then takeWhile isDigit (tl afterInt) else []);
            afterFrac = (if hasPoint then dropWhile isDigit (tl afterInt) else afterInt)
        in if intDigits = [] \<and> fracDigits = [] then NaN
           else Num (scale10 (real (digitsValue (intDigits @ fracDigits)))
                       (exponentPart afterFrac - int (length fracDigits))))"

fun js_neg :: "jsnum \<Rightarrow> jsnum" where
  "js_neg NaN = NaN"
| "js_neg NegInf = PosInf"
| "js_neg PosInf = NegInf"
| "js_neg (Num a) = Num (- a)"

definition js_parseFloat :: "string \<Rightarrow> jsnum" where
  "js_parseFloat inputString =
     (let trimmed = dropWhile isWhiteSpace inputString in
      case trimmed of
        [] \<Rightarrow> NaN
      | c # t \<Rightarrow>
          if c = CHR ''-'' then js_neg (strUnsignedDecimalLiteral t)
          else if c = CHR ''+'' then strUnsignedDecimalLiteral t
          else strUnsignedDecimalLiteral trimmed)"

text \<open>
  \<open>toString\<close>: the number of fractional digits of the expansion (the least \<open>d\<close> with
  \<open>x * 10 ^ d\<close> an integer, searched up to \<open>maxFractionDigits\<close>), the trailing zeros
  of an integer, and the five layouts of the standard for the digits \<open>s\<close> and the
  exponent \<open>e\<close> of \<open>s * 10 ^ e\<close>.
\<close>

definition maxFractionDigits :: nat where
  "maxFractionDigits = 1074"

definition isInteger :: "real \<Rightarrow> bool" where
  "isInteger x = (x = of_int \<lfloor>x\<rfloor>)"

function fractionDigits :: "real \<Rightarrow> nat \<Rightarrow> nat" where
  "fractionDigits x d =
     (if maxFractionDigits \<le> d \<or> isInteger (x * 10 ^ d) then d else fractionDigits x (Suc d))"
  by pat_completeness auto
termination
  by (relation "measure (\<lambda>(x, d). maxFractionDigits - d)") auto

declare fractionDigits.simps [simp del]

fun trailingZeros :: "nat \<Rightarrow> nat" where
  "trailingZeros m = (if 0 < m \<and> m mod 10 = 0 then Suc (trailingZeros (m div 10)) else 0)"

declare trailingZeros.simps [simp del]

definition formatDecimal :: "nat \<Rightarrow> int \<Rightarrow> string" where
  "formatDecimal s e =
     (let ds = digitsOf s; k = int (length ds); n = k + e in
      if k \<le> n \<and> n \<le> 21 then ds @ replicate (nat (n - k)) CHR ''0''
      else if 0 < n \<and> n \<le> 21 then take (nat n) ds @ ''.'' @ drop (nat n) ds
      else if - 6 < n \<and> n \<le> 0 then ''0.'' @ replicate (nat (- n)) CHR ''0'' @ ds
      else
        let ex = (if n - 1 < 0 then ''-'' else ''+'') @ digitsOf (nat \<bar>n - 1\<bar>)
        in if k = 1 then ds @ ''e'' @ ex
           else take 1 ds @ ''.'' @ drop 1 ds @ ''e'' @ ex)"

definition positiveToString :: "real \<Rightarrow> string" where
  "positiveToString x =
     (let d = fractionDigits x 0;
          m = nat \<lfloor>x * 10 ^ d\<rfloor>;
          z = trailingZeros m
      in formatDecimal (m div 10 ^ z) (int z - int d))"

definition js_toString :: "jsnum \<Rightarrow> string" where
  "js_toString v =
     (case v of
        NaN \<Rightarrow> ''NaN''
      | PosInf \<Rightarrow> ''Infinity''
      | NegInf \<Rightarrow> ''-Infinity''
      | Num x \<Rightarrow>
          if x = 0 then ''0''
          else if x < 0 then ''-'' @ positiveToString (- x)
          else positiveToString x)"


section \<open>Preference snapshot and configuration\<close>

record settings =
  masterEnabled :: bool
  hideHome :: bool
  hideShorts :: bool
  hideComments :: bool
  hideSidebar :: bool
  hideEndscreen :: bool
  hideRecs :: bool
  hideGuide :: bool
  blurThumbs :: bool
  playbackRate :: jsnum

definition DEFAULT_SETTINGS :: settings where
  "DEFAULT_SETTINGS =
     \<lparr> masterEnabled = True, hideHome = True, hideShorts = True, hideComments = True,
       hideSidebar = True, hideEndscreen = True, hideRecs = True, hideGuide = False,
       blurThumbs = False, playbackRate = Num 1 \<rparr>"

text \<open>
  \<open>DEFAULT_SETTINGS\<close> above is the content the script declares. The script also hands
  the object itself out: \<open>loadFromLocalStorageFallback\<close> returns it from its \<open>catch\<close>,
  and \<open>result || DEFAULT_SETTINGS\<close> yields it when the read hands back nothing. A
  snapshot reference is therefore either the defaults object or a fresh object with the
  given content, and the functions that read the defaults take the object's content at
  the time of the call.
\<close>

datatype snapshot_ref = TheDefaults | Fresh settings

definition snapshotOf :: "settings \<Rightarrow> snapshot_ref \<Rightarrow> settings" where
  "snapshotOf defaults ref = (case ref of TheDefaults \<Rightarrow> defaults | Fresh s \<Rightarrow> s)"

record speed_config =
  presetSpeeds :: "jsnum list"
  customRange_min :: jsnum
  customRange_max :: jsnum
  gracePeriod :: int
  watcherInterval :: int

definition SPEED_CONFIG :: speed_config where
  "SPEED_CONFIG =
     \<lparr> presetSpeeds = [Num 0.25, Num 0.5, Num 0.75, Num 1, Num 1.25, Num 1.5, Num 1.75,
                        Num 2, Num 2.5, Num 3, Num 4],
       customRange_min = Num 0.1, customRange_max = Num 16,
       gracePeriod = 5000, watcherInterval = 1000 \<rparr>"

section \<open>Document\<close>

text \<open>
  The part of the page the engine reads and writes: the attributes of \<open>document.body\<close>,
  the \<open>img\<close> elements, the elements carrying the hover marker, the hover listeners
  registered so far, and the \<open>playbackRate\<close> of every \<open>video\<close> element in document
  order. An image records which of the thumbnail selectors match it and the element that
  \<open>img.closest(...)\<close> returns, if any. The rate of a video element is a plain number
  property here; the range checks of the host's media element are not modelled.
\<close>

record img =
  img_matches :: "string list"
  img_filter :: string
  img_transition :: string
  img_blurred :: bool
  img_closest :: "nat option"

record document =
  bodyAttrs :: "string \<rightharpoonup> string"
  images :: "img list"
  hoverAdded :: "nat set"
  hoverListeners :: "(nat \<times> nat) list"
  videos :: "jsnum list"

datatype flag_key =
  MasterEnabled | HideHome | HideShorts | HideComments | HideSidebar
  | HideEndscreen | HideRecs | HideGuide | BlurThumbs

datatype setting_key = Flag flag_key | PlaybackRate

fun getFlag :: "settings \<Rightarrow> flag_key \<Rightarrow> bool" where
  "getFlag s MasterEnabled = masterEnabled s"
| "getFlag s HideHome = hideHome s"
| "getFlag s HideShorts = hideShorts s"
| "getFlag s HideComments = hideComments s"
| "getFlag s HideSidebar = hideSidebar s"
| "getFlag s HideEndscreen = hideEndscreen s"
| "getFlag s HideRecs = hideRecs s"
| "getFlag s HideGuide = hideGuide s"
| "getFlag s BlurThumbs = blurThumbs s"

fun setFlag :: "flag_key \<Rightarrow> bool \<Rightarrow> settings \<Rightarrow> settings" where
  "setFlag MasterEnabled b s = s\<lparr>masterEnabled := b\<rparr>"
| "setFlag HideHome b s = s\<lparr>hideHome := b\<rparr>"
| "setFlag HideShorts b s = s\<lparr>hideShorts := b\<rparr>"
| "setFlag HideComments b s = s\<lparr>hideComments := b\<rparr>"
| "setFlag HideSidebar b s = s\<lparr>hideSidebar := b\<rparr>"
| "setFlag HideEndscreen b s = s\<lparr>hideEndscreen := b\<rparr>"
| "setFlag HideRecs b s = s\<lparr>hideRecs := b\<rparr>"
| "setFlag HideGuide b s = s\<lparr>hideGuide := b\<rparr>"
| "setFlag BlurThumbs b s = s\<lparr>blurThumbs := b\<rparr>"

fun flagName :: "flag_key \<Rightarrow> string" where
  "flagName MasterEnabled = ''masterEnabled''"
| "flagName HideHome = ''hideHome''"
| "flagName HideShorts = ''hideShorts''"
| "flagName HideComments = ''hideComments''"
| "flagName HideSidebar = ''hideSidebar''"
| "flagName HideEndscreen = ''hideEndscreen''"
| "flagName HideRecs = ''hideRecs''"
| "flagName HideGuide = ''hideGuide''"
| "flagName BlurThumbs = ''blurThumbs''"

fun keyName :: "setting_key \<Rightarrow> string" where
  "keyName (Flag k) = flagName k"
| "keyName PlaybackRate = ''playbackRate''"

text \<open>\<open>Object.keys(DEFAULT_SETTINGS)\<close>, in declaration order.\<close>

definition settingKeys :: "setting_key list" where
  "settingKeys =
     [Flag MasterEnabled, Flag HideHome, Flag HideShorts, Flag HideComments,
      Flag HideSidebar, Flag HideEndscreen, Flag HideRecs, Flag HideGuide,
      Flag BlurThumbs, PlaybackRate]"

text \<open>\<open>Object.entries(BODY_FLAG_ATTRIBUTES)\<close>, in declaration order.\<close>

definition BODY_FLAG_ATTRIBUTES :: "(flag_key \<times> string) list" where
  "BODY_FLAG_ATTRIBUTES =
     [(HideHome, ''data-ghostfeed-hide-home''),
      (HideShorts, ''data-ghostfeed-hide-shorts''),
      (HideComments, ''data-ghostfeed-hide-comments''),
      (HideSidebar, ''data-ghostfeed-hide-sidebar''),
      (HideEndscreen, ''data-ghostfeed-hide-endscreen''),
      (HideRecs, ''data-ghostfeed-hide-recs''),
      (HideGuide, ''data-ghostfeed-hide-guide''),
      (BlurThumbs, ''data-ghostfeed-blur-thumbs'')]"

definition thumbnailSelectors :: "string list" where
  "thumbnailSelectors =
     [''img.yt-core-image'', ''yt-image img'', ''ytd-thumbnail img'', ''yt-img-shadow img'',
      ''ytd-moving-thumbnail-renderer img'', ''ytd-playlist-thumbnail img'',
      ''ytd-video-preview img'', ''ytd-rich-grid-media img'', ''.ytd-thumbnail img'']"

text \<open>The indices of the images a selector matches, in document order.\<close>

definition querySelectorAll_img :: "string \<Rightarrow> document \<Rightarrow> nat list" where
  "querySelectorAll_img selector d =
     filter (\<lambda>i. selector \<in> set (img_matches (images d ! i))) [0..<length (images d)]"

text \<open>The callback of the inner \<open>forEach\<close> of \<open>applyThumbnailBlur\<close>, on image \<open>i\<close>.\<close>

definition blurImage :: "nat \<Rightarrow> document \<Rightarrow> document" where
  "blurImage i d =
     (let im = images d ! i in
      if img_blurred im then d
      else
        let d1 = d\<lparr>images := (images d)[i := im\<lparr>img_filter := ''blur(12px) saturate(0.6)'',
                                                   img_transition := ''filter 0.2s ease'',
                                                   img_blurred := True\<rparr>]\<rparr>
        in case img_closest im of
             None \<Rightarrow> d1
           | Some parent \<Rightarrow>
               if parent \<in> hoverAdded d1 then d1
               else d1\<lparr>hoverListeners := hoverListeners d1 @ [(parent, i)],
                       hoverAdded := insert parent (hoverAdded d1)\<rparr>)"

definition applyThumbnailBlur :: "document \<Rightarrow> document" where
  "applyThumbnailBlur d =
     fold (\<lambda>selector d'. fold blurImage (querySelectorAll_img selector d') d')
          thumbnailSelectors d"

definition removeThumbnailBlur :: "document \<Rightarrow> document" where
  "removeThumbnailBlur d =
     d\<lparr>images := map (\<lambda>im. if img_blurred im
                             then im\<lparr>img_filter := [], img_blurred := False\<rparr> else im)
                      (images d),
       hoverAdded := {}\<rparr>"

text \<open>The body of the \<open>for\<close> loop of \<open>applyBodyFlags\<close>, for one entry.\<close>

definition applyBodyFlag :: "settings \<Rightarrow> bool \<Rightarrow> flag_key \<times> string \<Rightarrow> (string \<rightharpoonup> string) \<Rightarrow> (string \<rightharpoonup> string)" where
  "applyBodyFlag s isEnabled entry attrs =
     (case entry of (settingKey, attributeName) \<Rightarrow>
        if \<not> isEnabled then attrs(attributeName := None)
        else
          let shouldApply = getFlag s settingKey in
          if shouldApply then attrs(attributeName \<mapsto> ''true'')
          else attrs(attributeName := None))"

definition applyBodyFlags :: "settings \<Rightarrow> document \<Rightarrow> document" where
  "applyBodyFlags s d =
     (let isEnabled = masterEnabled s;
          attrs0 = (if isEnabled
                    then (bodyAttrs d)(''data-ghostfeed-master-enabled'' \<mapsto> ''true'')
                    else (bodyAttrs d)(''data-ghostfeed-master-enabled'' := None));
          attrs1 = fold (applyBodyFlag s isEnabled) BODY_FLAG_ATTRIBUTES attrs0;
          d1 = d\<lparr>bodyAttrs := attrs1\<rparr>
      in if isEnabled \<and> blurThumbs s then applyThumbnailBlur d1 else removeThumbnailBlur d1)"

section \<open>Persistence\<close>

text \<open>
  The platform's \<open>parseFloat\<close> and \<open>Number.prototype.toString\<close> are parameters of the
  functions that call them (\<open>parseFloat\<close> and \<open>numberToString\<close> below). A thrown
  exception is a value of \<open>js_error\<close>; \<open>localStorage\<close> either works or throws on
  access, as it does when the page is denied storage or the quota is exhausted.
\<close>

datatype js_error = JsError

record local_storage =
  ls_items :: "string \<rightharpoonup> string"
  ls_getItem_throws :: bool
  ls_setItem_throws :: bool

definition getItem :: "local_storage \<Rightarrow> string \<Rightarrow> js_error + string option" where
  "getItem ls k = (if ls_getItem_throws ls then Inl JsError else Inr (ls_items ls k))"

definition setItem :: "string \<Rightarrow> string \<Rightarrow> local_storage \<Rightarrow> js_error + local_storage" where
  "setItem k v ls =
     (if ls_setItem_throws ls then Inl JsError else Inr (ls\<lparr>ls_items := (ls_items ls)(k \<mapsto> v)\<rparr>))"

text \<open>
  The primary backend is the browser's synced storage area. What it holds is a partial
  object: a value for some of the keys. \<open>chrome.storage.sync.set(partial)\<close> overwrites
  the keys of \<open>partial\<close> and keeps the others; \<open>chrome.storage.sync.get(defaults, ...)\<close>
  hands back a new object with, for every key of \<open>defaults\<close>, the stored value if there
  is one and the value in \<open>defaults\<close> otherwise.
\<close>

record items =
  item_flags :: "flag_key \<rightharpoonup> bool"
  item_rate :: "jsnum option"


definition storedFlag :: "settings \<Rightarrow> items \<Rightarrow> flag_key \<Rightarrow> bool" where
  "storedFlag defaults area k =
     (case item_flags area k of Some b \<Rightarrow> b | None \<Rightarrow> getFlag defaults k)"

definition storageSyncGet :: "settings \<Rightarrow> items \<Rightarrow> settings" where
  "storageSyncGet defaults area =
     \<lparr> masterEnabled = storedFlag defaults area MasterEnabled,
       hideHome = storedFlag defaults area HideHome,
       hideShorts = storedFlag defaults area HideShorts,
       hideComments = storedFlag defaults area HideComments,
       hideSidebar = storedFlag defaults area HideSidebar,
       hideEndscreen = storedFlag defaults area HideEndscreen,
       hideRecs = storedFlag defaults area HideRecs,
       hideGuide = storedFlag defaults area HideGuide,
       blurThumbs = storedFlag defaults area BlurThumbs,
       playbackRate = (case item_rate area of Some r \<Rightarrow> r | None \<Rightarrow> playbackRate defaults) \<rparr>"

text \<open>A snapshot as the object with all ten keys.\<close>

definition allItems :: "settings \<Rightarrow> items" where
  "allItems s = \<lparr> item_flags = (\<lambda>k. Some (getFlag s k)), item_rate = Some (playbackRate s) \<rparr>"

text \<open>
  The browser's side of a call. The capabilities are the five values the probe reads;
  \<open>sync_get\<close> and \<open>sync_set\<close> are what a call does: throw, complete with
  \<open>chrome.runtime.lastError\<close> set, or complete normally. A read that completes normally
  runs its callback on the object built from the area it carries (\<open>GetResult (Some area)\<close>)
  or on nothing (\<open>GetResult None\<close>). The browser runs the callback of every call that
  does not throw; a call whose callback never runs is outside the model.
\<close>

datatype sync_get_outcome = GetThrows | GetLastError | GetResult "items option"

datatype sync_set_outcome = SetThrows | SetLastError | SetOk

record chrome_env =
  chrome_defined :: bool
  chrome_storage :: bool
  chrome_storage_sync :: bool
  chrome_runtime :: bool
  chrome_runtime_id :: bool
  probe_throws :: bool
  sync_get :: sync_get_outcome
  sync_set :: sync_set_outcome

definition isChromeStorageAvailable :: "chrome_env \<Rightarrow> bool" where
  "isChromeStorageAvailable env =
     (if probe_throws env then False
      else
        let hasChrome = chrome_defined env;
            hasStorage = (hasChrome \<and> chrome_storage env);
            hasSync = (hasStorage \<and> chrome_storage_sync env);
            hasRuntime = (hasChrome \<and> chrome_runtime env);
            hasRuntimeId = (hasRuntime \<and> chrome_runtime_id env)
        in if \<not> hasChrome then False
           else if \<not> hasStorage then False
           else if \<not> hasSync then False
           else if \<not> hasRuntime then False
           else if \<not> hasRuntimeId then False
           else True)"

definition isExtensionContextValid :: "chrome_env \<Rightarrow> bool" where
  "isExtensionContextValid env = isChromeStorageAvailable env"

text \<open>The fallback key of a setting: the template \<open>ghostfeed-${key}\<close>.\<close>

definition storageKey :: "setting_key \<Rightarrow> string" where
  "storageKey key = ''ghostfeed-'' @ keyName key"

text \<open>The \<open>forEach\<close> of \<open>loadFromLocalStorageFallback\<close>; a throw ends it.\<close>

fun loadKeys ::
  "(string \<Rightarrow> jsnum) \<Rightarrow> local_storage \<Rightarrow> setting_key list \<Rightarrow> settings \<Rightarrow> js_error + settings" where
  "loadKeys parseFloat ls [] fallbackSettings = Inr fallbackSettings"
| "loadKeys parseFloat ls (key # keys) fallbackSettings =
     (case getItem ls (storageKey key) of
        Inl e \<Rightarrow> Inl e
      | Inr None \<Rightarrow> loadKeys parseFloat ls keys fallbackSettings
      | Inr (Some stored) \<Rightarrow>
          (case key of
             PlaybackRate \<Rightarrow>
               (let rate = parseFloat stored in
                if \<not> isNaN rate \<and> js_gt rate (Num 0)
                then loadKeys parseFloat ls keys (fallbackSettings\<lparr>playbackRate := rate\<rparr>)
                else loadKeys parseFloat ls keys fallbackSettings)
           | Flag k \<Rightarrow>
               loadKeys parseFloat ls keys (setFlag k (stored = ''true'') fallbackSettings)))"

text \<open>
  \<open>loadFromLocalStorageFallback\<close>, on the content of the defaults object at the call:
  the copy \<open>{ ...DEFAULT_SETTINGS }\<close> starts from that content, and the \<open>catch\<close> returns
  the object itself.
\<close>

definition loadFromLocalStorageFallback ::
  "(string \<Rightarrow> jsnum) \<Rightarrow> settings \<Rightarrow> local_storage \<Rightarrow> snapshot_ref" where
  "loadFromLocalStorageFallback parseFloat defaults ls =
     (case loadKeys parseFloat ls settingKeys defaults of
        Inr fallbackSettings \<Rightarrow> Fresh fallbackSettings
      | Inl e \<Rightarrow> TheDefaults)"

text \<open>\<open>settings[key].toString()\<close>.\<close>

fun settingToString :: "(jsnum \<Rightarrow> string) \<Rightarrow> settings \<Rightarrow> setting_key \<Rightarrow> string" where
  "settingToString numberToString s (Flag k) = (if getFlag s k then ''true'' else ''false'')"
| "settingToString numberToString s PlaybackRate = numberToString (playbackRate s)"

text \<open>
  The \<open>forEach\<close> of \<open>saveToLocalStorageBackup\<close>: the items written before a throw
  stay written.
\<close>

fun saveKeys ::
  "(jsnum \<Rightarrow> string) \<Rightarrow> settings \<Rightarrow> setting_key list \<Rightarrow> local_storage
     \<Rightarrow> local_storage \<times> js_error option" where
  "saveKeys numberToString s [] ls = (ls, None)"
| "saveKeys numberToString s (key # keys) ls =
     (case setItem (storageKey key) (settingToString numberToString s key) ls of
        Inl e \<Rightarrow> (ls, Some e)
      | Inr ls' \<Rightarrow> saveKeys numberToString s keys ls')"

definition saveToLocalStorageBackup ::
  "(jsnum \<Rightarrow> string) \<Rightarrow> settings \<Rightarrow> local_storage \<Rightarrow> local_storage" where
  "saveToLocalStorageBackup numberToString s ls = fst (saveKeys numberToString s settingKeys ls)"

datatype 'a promise = Resolved 'a | Rejected js_error | Pending

text \<open>
  \<open>loadSettingsFromStorage\<close>, on the content of the defaults object at the call: the
  promise it returns, with the reference it resolves with and the fallback storage as
  the load leaves it (a successful primary read is mirrored there). The read is
  \<open>chrome.storage.sync.get(DEFAULT_SETTINGS, ...)\<close>, so its result takes the missing keys
  from the defaults object; \<open>result || DEFAULT_SETTINGS\<close> is the defaults object itself
  when there is no result.
\<close>

definition loadSettingsFromStorage ::
  "(string \<Rightarrow> jsnum) \<Rightarrow> (jsnum \<Rightarrow> string) \<Rightarrow> chrome_env \<Rightarrow> settings \<Rightarrow> local_storage
     \<Rightarrow> (snapshot_ref \<times> local_storage) promise" where
  "loadSettingsFromStorage parseFloat numberToString env defaults ls =
     (if isChromeStorageAvailable env then
        (case sync_get env of
           GetThrows \<Rightarrow> Resolved (loadFromLocalStorageFallback parseFloat defaults ls, ls)
         | GetLastError \<Rightarrow> Resolved (loadFromLocalStorageFallback parseFloat defaults ls, ls)
         | GetResult result \<Rightarrow>
             (let ref = (case result of
                           Some area \<Rightarrow> Fresh (storageSyncGet defaults area)
                         | None \<Rightarrow> TheDefaults)
              in Resolved (ref, saveToLocalStorageBackup numberToString (snapshotOf defaults ref) ls)))
      else Resolved (loadFromLocalStorageFallback parseFloat defaults ls, ls))"






section \<open>Engine state\<close>

text \<open>
  The script's module-level variables, the document, the fallback storage, the rates
  handed to the synced area by \<open>setVideoSpeed\<close>, and the one-shot timers set so far
  (delay in milliseconds and what runs). Of the injected control only the
  \<open>isSpeedControlsInjected\<close> flag is kept; the interval timer is the flag
  \<open>playbackWatcherRunning\<close>. \<open>Date.now()\<close> is the argument \<open>now\<close> of an operation, one
  value for the whole run of the operation. \<open>currentSettings\<close> is the content of the
  object the variable refers to; \<open>defaultsObject\<close> is the content of the
  \<open>DEFAULT_SETTINGS\<close> object, and \<open>currentIsDefaults\<close> says that the variable refers to
  that object, so that a write through the variable is a write to the defaults.
\<close>

datatype task = InjectSpeedControls | ApplyThumbnailBlur | HideSpeedMenu

record state =
  defaultsObject :: settings
  currentIsDefaults :: bool
  currentSettings :: settings
  playbackWatcherRunning :: bool
  lastUserInteractionTimestamp :: int
  hasUserOverriddenSpeed :: bool
  isSpeedControlsInjected :: bool
  contextInvalidationWarned :: bool
  doc :: document
  localStorage :: local_storage
  syncWrites :: "jsnum list"
  timers :: "(int \<times> task) list"

text \<open>\<open>currentSettings = newSettings\<close>.\<close>

definition assignCurrentSettings :: "snapshot_ref \<Rightarrow> state \<Rightarrow> state" where
  "assignCurrentSettings ref st =
     st\<lparr>currentSettings := snapshotOf (defaultsObject st) ref,
        currentIsDefaults := (case ref of TheDefaults \<Rightarrow> True | Fresh s \<Rightarrow> False)\<rparr>"

text \<open>\<open>currentSettings.playbackRate = rate\<close>.\<close>

definition writeCurrentRate :: "jsnum \<Rightarrow> state \<Rightarrow> state" where
  "writeCurrentRate rate st =
     st\<lparr>currentSettings := (currentSettings st)\<lparr>playbackRate := rate\<rparr>,
        defaultsObject := (if currentIsDefaults st
                           then (defaultsObject st)\<lparr>playbackRate := rate\<rparr>
                           else defaultsObject st)\<rparr>"

subsection \<open>Rate enforcement\<close>

text \<open>The test that makes the enforcement tick skip an element.\<close>

definition enforcerSkips :: "bool \<Rightarrow> int \<Rightarrow> int \<Rightarrow> bool" where
  "enforcerSkips hasOverride lastTimestamp now =
     (let timeSinceUserAction = now - lastTimestamp
      in hasOverride \<and> timeSinceUserAction < gracePeriod SPEED_CONFIG)"

definition clampRate :: "jsnum \<Rightarrow> jsnum" where
  "clampRate playbackRate' = Math_max (Num 0.0625) (Math_min (Num 16) playbackRate')"

text \<open>\<open>Math.abs(videoElement.playbackRate - clampedRate) > 0.01\<close>.\<close>

definition exceedsEpsilon :: "jsnum \<Rightarrow> jsnum \<Rightarrow> bool" where
  "exceedsEpsilon rate clampedRate = js_gt (Math_abs (js_sub rate clampedRate)) (Num 0.01)"

text \<open>
  The callback of the \<open>forEach\<close> of \<open>applyPlaybackRateToVideos\<close>: from the override
  flag and the element's rate to both after the callback. The rate of an element is a
  number in this model, so the callback's \<open>typeof\<close> guard never returns.
\<close>

definition enforceVideo :: "int \<Rightarrow> int \<Rightarrow> jsnum \<Rightarrow> bool \<Rightarrow> jsnum \<Rightarrow> bool \<times> jsnum" where
  "enforceVideo now lastTimestamp target hasOverride rate =
     (if enforcerSkips hasOverride lastTimestamp now then (hasOverride, rate)
      else
        let clampedRate = clampRate target in
        if exceedsEpsilon rate clampedRate then (False, clampedRate)
        else (hasOverride, rate))"

fun enforceVideos :: "int \<Rightarrow> int \<Rightarrow> jsnum \<Rightarrow> bool \<Rightarrow> jsnum list \<Rightarrow> bool \<times> jsnum list" where
  "enforceVideos now lastTimestamp target hasOverride [] = (hasOverride, [])"
| "enforceVideos now lastTimestamp target hasOverride (rate # rest) =
     (case enforceVideo now lastTimestamp target hasOverride rate of
        (hasOverride1, rate1) \<Rightarrow>
          (case enforceVideos now lastTimestamp target hasOverride1 rest of
             (hasOverride2, rest2) \<Rightarrow> (hasOverride2, rate1 # rest2)))"

definition applyPlaybackRateToVideos :: "int \<Rightarrow> jsnum \<Rightarrow> state \<Rightarrow> state" where
  "applyPlaybackRateToVideos now target st =
     (if \<not> masterEnabled (currentSettings st) then st
      else
        case enforceVideos now (lastUserInteractionTimestamp st) target
               (hasUserOverriddenSpeed st) (videos (doc st)) of
          (hasOverride, vs) \<Rightarrow>
            st\<lparr>hasUserOverriddenSpeed := hasOverride, doc := (doc st)\<lparr>videos := vs\<rparr>\<rparr>)"

text \<open>\<open>currentSettings.playbackRate || 1\<close>.\<close>

definition targetRate :: "state \<Rightarrow> jsnum" where
  "targetRate st =
     (if truthy (playbackRate (currentSettings st)) then playbackRate (currentSettings st)
      else Num 1)"

text \<open>The interval callback installed by \<open>startPlaybackRateWatcher\<close>.\<close>

definition watcherTick :: "int \<Rightarrow> state \<Rightarrow> state" where
  "watcherTick now st = applyPlaybackRateToVideos now (targetRate st) st"

definition startPlaybackRateWatcher :: "state \<Rightarrow> state" where
  "startPlaybackRateWatcher st =
     (if \<not> masterEnabled (currentSettings st) then st\<lparr>playbackWatcherRunning := False\<rparr>
      else st\<lparr>playbackWatcherRunning := True\<rparr>)"

subsection \<open>Applying a snapshot\<close>

definition applySettingsImmediately :: "settings \<Rightarrow> state \<Rightarrow> state" where
  "applySettingsImmediately s st =
     (let st1 = st\<lparr>doc := applyBodyFlags s (doc st)\<rparr> in
      if \<not> masterEnabled s
      then st1\<lparr>doc := (doc st1)\<lparr>videos := map (\<lambda>video. Num 1) (videos (doc st1))\<rparr>\<rparr>
      else
        case videos (doc st1) of
          [] \<Rightarrow> st1
        | videoElement # rest \<Rightarrow>
            if truthy (playbackRate s) \<and> js_strict_neq (playbackRate s) (Num 1)
            then st1\<lparr>doc := (doc st1)\<lparr>videos := playbackRate s # rest\<rparr>\<rparr>
            else writeCurrentRate videoElement st1)"

subsection \<open>The in-page control\<close>

definition injectSpeedControls :: "state \<Rightarrow> state" where
  "injectSpeedControls st =
     (if isSpeedControlsInjected st then st else st\<lparr>isSpeedControlsInjected := True\<rparr>)"

definition cleanupSpeedControls :: "state \<Rightarrow> state" where
  "cleanupSpeedControls st = st\<lparr>isSpeedControlsInjected := False\<rparr>"

text \<open>\<open>localStorage.setItem('ghostfeed-playbackRate', speed.toString())\<close> in its \<open>try\<close>.\<close>

definition saveRateToLocalStorage :: "(jsnum \<Rightarrow> string) \<Rightarrow> jsnum \<Rightarrow> state \<Rightarrow> state" where
  "saveRateToLocalStorage numberToString speed st =
     (case setItem ''ghostfeed-playbackRate'' (numberToString speed) (localStorage st) of
        Inl e \<Rightarrow> st
      | Inr ls' \<Rightarrow> st\<lparr>localStorage := ls'\<rparr>)"

definition setVideoSpeed :: "(jsnum \<Rightarrow> string) \<Rightarrow> chrome_env \<Rightarrow> jsnum \<Rightarrow> int \<Rightarrow> state \<Rightarrow> state" where
  "setVideoSpeed numberToString env speed now st =
     (let st0 = (if \<not> isExtensionContextValid env \<and> \<not> contextInvalidationWarned st
                 then st\<lparr>contextInvalidationWarned := True\<rparr> else st)
      in case videos (doc st0) of
           [] \<Rightarrow> st0
         | videoElement # rest \<Rightarrow>
             if isNaN speed \<or> js_le speed (Num 0) then st0
             else
               let st1 = st0\<lparr>lastUserInteractionTimestamp := now,
                             hasUserOverriddenSpeed := True\<rparr>;
                   st2 = st1\<lparr>doc := (doc st1)\<lparr>videos := speed # rest\<rparr>\<rparr>;
                   st3 = writeCurrentRate speed st2;
                   contextValid = isChromeStorageAvailable env;
                   st4 = (if contextValid then
                            (case sync_set env of
                               SetOk \<Rightarrow> st3\<lparr>syncWrites := syncWrites st3 @ [speed]\<rparr>
                             | SetLastError \<Rightarrow> saveRateToLocalStorage numberToString speed st3
                             | SetThrows \<Rightarrow> saveRateToLocalStorage numberToString speed st3)
                          else saveRateToLocalStorage numberToString speed st3)
               in st4\<lparr>timers := timers st4 @ [(150, HideSpeedMenu)]\<rparr>)"

text \<open>The range test of the free-form entry, on the parsed value.\<close>

definition customRangeAccepts :: "jsnum \<Rightarrow> bool" where
  "customRangeAccepts speed =
     (\<not> isNaN speed \<and> js_ge speed (customRange_min SPEED_CONFIG)
        \<and> js_le speed (customRange_max SPEED_CONFIG))"

text \<open>
  The \<open>change\<close> listener of the free-form entry, on the text of the field. The field's
  own text and border colour are not part of the state.
\<close>

definition customInputChange ::
  "(string \<Rightarrow> jsnum) \<Rightarrow> (jsnum \<Rightarrow> string) \<Rightarrow> chrome_env \<Rightarrow> string \<Rightarrow> int \<Rightarrow> state \<Rightarrow> state" where
  "customInputChange parseFloat numberToString env text now st =
     (let speed = parseFloat text in
      if customRangeAccepts speed then
        (case videos (doc st) of
           [] \<Rightarrow> st
         | videoElement # rest \<Rightarrow> setVideoSpeed numberToString env speed now st)
      else st)"

text \<open>The \<open>keydown\<close> listener of the free-form entry.\<close>

definition customInputKeydown ::
  "(string \<Rightarrow> jsnum) \<Rightarrow> (jsnum \<Rightarrow> string) \<Rightarrow> chrome_env \<Rightarrow> string \<Rightarrow> string \<Rightarrow> int \<Rightarrow> state
     \<Rightarrow> state" where
  "customInputKeydown parseFloat numberToString env key text now st =
     (if key = ''Enter'' then
        (let speed = parseFloat text in
         if customRangeAccepts speed then
           (case videos (doc st) of
              [] \<Rightarrow> st
            | videoElement # rest \<Rightarrow> setVideoSpeed numberToString env speed now st)
         else st)
      else st)"

subsection \<open>Structure watcher and change bridge\<close>

definition handleNewVideoDetected :: "int \<Rightarrow> state \<Rightarrow> state" where
  "handleNewVideoDetected now st =
     (let st1 = st\<lparr>hasUserOverriddenSpeed := False, lastUserInteractionTimestamp := 0\<rparr>;
          st2 = applyPlaybackRateToVideos now (targetRate st1) st1
      in if masterEnabled (currentSettings st2)
         then st2\<lparr>timers := timers st2 @ [(1000, InjectSpeedControls)]\<rparr>
         else st2)"

text \<open>The test that makes the change handler leave the rate alone.\<close>

definition changeHandlerDefers :: "bool \<Rightarrow> int \<Rightarrow> int \<Rightarrow> bool" where
  "changeHandlerDefers hasOverride lastTimestamp now =
     (let timeSinceUserAction = now - lastTimestamp
      in hasOverride \<and> timeSinceUserAction < 3000)"

text \<open>
  The steps of the continuation of \<open>handleStorageChanges\<close>, in source order: the
  re-apply behind the grace check; the injection or removal of the control on a change of
  the master flag; the blur update on a change of the blur flag; the reset of the rates
  when the master flag went from on to off.
\<close>

definition reapplyAfterChange :: "int \<Rightarrow> state \<Rightarrow> state" where
  "reapplyAfterChange now st =
     (if changeHandlerDefers (hasUserOverriddenSpeed st) (lastUserInteractionTimestamp st) now
      then st\<lparr>doc := applyBodyFlags (currentSettings st) (doc st)\<rparr>
      else applySettingsImmediately (currentSettings st) st)"

definition updateSpeedControls :: "bool \<Rightarrow> state \<Rightarrow> state" where
  "updateSpeedControls wasEnabled st =
     (if masterEnabled (currentSettings st) \<and> \<not> wasEnabled then injectSpeedControls st
      else if \<not> masterEnabled (currentSettings st) \<and> wasEnabled then cleanupSpeedControls st
      else st)"

definition updateThumbnailBlur :: "bool \<Rightarrow> state \<Rightarrow> state" where
  "updateThumbnailBlur wasBlurEnabled st =
     (if blurThumbs (currentSettings st) \<noteq> wasBlurEnabled then
        (if masterEnabled (currentSettings st) \<and> blurThumbs (currentSettings st)
         then st\<lparr>timers := timers st @ [(100, ApplyThumbnailBlur)]\<rparr>
         else st\<lparr>doc := removeThumbnailBlur (doc st)\<rparr>)
      else st)"

definition resetRatesOnDisable :: "bool \<Rightarrow> state \<Rightarrow> state" where
  "resetRatesOnDisable wasEnabled st =
     (if wasEnabled \<and> \<not> masterEnabled (currentSettings st)
      then st\<lparr>doc := (doc st)\<lparr>videos := map (\<lambda>video. Num 1) (videos (doc st))\<rparr>\<rparr>
      else st)"

text \<open>
  \<open>handleStorageChanges\<close>, with the continuation of the load run at time \<open>now\<close>. The
  result is \<open>None\<close> when the load does not resolve.
\<close>

definition handleStorageChanges ::
  "(string \<Rightarrow> jsnum) \<Rightarrow> (jsnum \<Rightarrow> string) \<Rightarrow> chrome_env \<Rightarrow> string \<Rightarrow> int \<Rightarrow> state
     \<Rightarrow> state option" where
  "handleStorageChanges parseFloat numberToString env area now st =
     (if area \<noteq> ''sync'' then Some st
      else
        case loadSettingsFromStorage parseFloat numberToString env (defaultsObject st)
               (localStorage st) of
          Resolved (newSettings, ls') \<Rightarrow>
            (let wasEnabled = masterEnabled (currentSettings st);
                 wasBlurEnabled = blurThumbs (currentSettings st);
                 st1 = assignCurrentSettings newSettings (st\<lparr>localStorage := ls'\<rparr>);
                 st2 = reapplyAfterChange now st1;
                 st3 = startPlaybackRateWatcher st2;
                 st4 = updateSpeedControls wasEnabled st3;
                 st5 = updateThumbnailBlur wasBlurEnabled st4
             in Some (resetRatesOnDisable wasEnabled st5))
        | Rejected e \<Rightarrow> None
        | Pending \<Rightarrow> None)"

text \<open>
  \<open>initializeExtension\<close>, with the continuation of the load; the listeners it
  registers are not part of the state.
\<close>

definition initializeExtension ::
  "(string \<Rightarrow> jsnum) \<Rightarrow> (jsnum \<Rightarrow> string) \<Rightarrow> chrome_env \<Rightarrow> state \<Rightarrow> state option" where
  "initializeExtension parseFloat numberToString env st =
     (case loadSettingsFromStorage parseFloat numberToString env (defaultsObject st)
             (localStorage st) of
        Resolved (s, ls') \<Rightarrow>
          (let st1 = assignCurrentSettings s (st\<lparr>localStorage := ls'\<rparr>);
               st2 = applySettingsImmediately (currentSettings st1) st1;
               st3 = startPlaybackRateWatcher st2
           in Some (if masterEnabled (currentSettings st3) then injectSpeedControls st3 else st3))
      | Rejected e \<Rightarrow> None
      | Pending \<Rightarrow> None)"

text \<open>
  The module-level variables as the script declares them, on a given page:
  \<open>currentSettings\<close> starts as a copy of the defaults, not as the object itself.
\<close>

definition initialState :: "document \<Rightarrow> local_storage \<Rightarrow> state" where
  "initialState d ls =
     \<lparr> defaultsObject = DEFAULT_SETTINGS, currentIsDefaults = False,
       currentSettings = DEFAULT_SETTINGS, playbackWatcherRunning = False,
       lastUserInteractionTimestamp = 0, hasUserOverriddenSpeed = False,
       isSpeedControlsInjected = False, contextInvalidationWarned = False,
       doc = d, localStorage = ls, syncWrites = [], timers = [] \<rparr>"

section \<open>Concrete inputs\<close>

text \<open>
  A page with one video playing at the native rate and two thumbnails, the second one
  blurred earlier; an empty fallback storage that works; a browser whose synced area
  answers a read with the given snapshot and accepts writes; a browser without the
  extension API.
  \<open>presetToString\<close> and \<open>parsePresetText\<close> are the platform's number printing and
  \<open>parseFloat\<close> on the few texts the examples use.
\<close>

definition examplePage :: document where
  "examplePage =
     \<lparr> bodyAttrs = [''class'' \<mapsto> ''watch'', ''data-ghostfeed-hide-guide'' \<mapsto> ''true''],
       images =
         [\<lparr> img_matches = [''ytd-thumbnail img''], img_filter = [], img_transition = [],
            img_blurred = False, img_closest = Some 7 \<rparr>,
          \<lparr> img_matches = [''yt-image img'', ''ytd-thumbnail img''],
            img_filter = ''blur(12px) saturate(0.6)'', img_transition = ''filter 0.2s ease'',
            img_blurred = True, img_closest = Some 7 \<rparr>],
       hoverAdded = {7}, hoverListeners = [(7, 1)], videos = [Num 1] \<rparr>"

definition emptyStorage :: local_storage where
  "emptyStorage = \<lparr> ls_items = Map.empty, ls_getItem_throws = False, ls_setItem_throws = False \<rparr>"

definition chromeAnswering :: "settings \<Rightarrow> chrome_env" where
  "chromeAnswering s =
     \<lparr> chrome_defined = True, chrome_storage = True, chrome_storage_sync = True,
       chrome_runtime = True, chrome_runtime_id = True, probe_throws = False,
       sync_get = GetResult (Some (allItems s)), sync_set = SetOk \<rparr>"

definition chromeMissing :: chrome_env where
  "chromeMissing =
     \<lparr> chrome_defined = False, chrome_storage = False, chrome_storage_sync = False,
       chrome_runtime = False, chrome_runtime_id = False, probe_throws = False,
       sync_get = GetThrows, sync_set = SetThrows \<rparr>"

definition presetToString :: "jsnum \<Rightarrow> string" where
  "presetToString n =
     (if n = Num 1 then ''1'' else if n = Num 2.5 then ''2.5'' else if n = Num 0.5 then ''0.5''
      else if n = PosInf then ''Infinity'' else ''NaN'')"

definition parsePresetText :: "string \<Rightarrow> jsnum" where
  "parsePresetText t =
     (if t = ''1'' then Num 1 else if t = ''2.5'' then Num 2.5 else if t = ''0.5'' then Num 0.5
      else if t = ''20'' then Num 20 else if t = ''0'' then Num 0
      else if t = ''Infinity'' then PosInf else NaN)"

text \<open>
  The state after the user picks 2.5x in the control at time 0, on the example page with
  the default snapshot and a browser that stores the rate.
\<close>

definition afterSelection :: state where
  "afterSelection =
     setVideoSpeed presetToString (chromeAnswering DEFAULT_SETTINGS) (Num 2.5) 0
       (initialState examplePage emptyStorage)"

text \<open>
  Scenario C with a stored target of 1x. The browser's synced area holds the default
  snapshot and reports an error on every write. The user picks 2.5x at time 0, so the
  rate goes to the fallback storage only; at 500 ms a change notification for the synced
  area reloads the snapshot, whose rate is 1.
\<close>

definition chromeWriteFailing :: chrome_env where
  "chromeWriteFailing =
     \<lparr> chrome_defined = True, chrome_storage = True, chrome_storage_sync = True,
       chrome_runtime = True, chrome_runtime_id = True, probe_throws = False,
       sync_get = GetResult (Some (allItems DEFAULT_SETTINGS)), sync_set = SetLastError \<rparr>"

definition scenarioC :: state where
  "scenarioC =
     (case handleStorageChanges parsePresetText presetToString chromeWriteFailing ''sync'' 500
             (setVideoSpeed presetToString chromeWriteFailing (Num 2.5) 0
                (initialState examplePage emptyStorage)) of
        Some st \<Rightarrow> st
      | None \<Rightarrow> initialState examplePage emptyStorage)"

text \<open>A snapshot with the master flag off and the blur flag still on.\<close>

definition masterOffSnapshot :: settings where
  "masterOffSnapshot = DEFAULT_SETTINGS\<lparr>masterEnabled := False, blurThumbs := True\<rparr>"


definition brokenStorage :: local_storage where
  "brokenStorage = \<lparr> ls_items = Map.empty, ls_getItem_throws = True, ls_setItem_throws = True \<rparr>"


definition liveRatePage :: document where
  "liveRatePage = examplePage\<lparr>videos := [Num 2, Num 1]\<rparr>"



text \<open>
  A browser whose synced storage is present and reports an error on every read and
  write, with a fallback storage that throws on every access. The start-up on a page
  whose first video plays at 2x, and then the selection of 2.5x in the control.
\<close>

definition chromeErroring :: chrome_env where
  "chromeErroring =
     \<lparr> chrome_defined = True, chrome_storage = True, chrome_storage_sync = True,
       chrome_runtime = True, chrome_runtime_id = True, probe_throws = False,
       sync_get = GetLastError, sync_set = SetLastError \<rparr>"

definition afterFailedLoad :: state where
  "afterFailedLoad =
     (case initializeExtension js_parseFloat js_toString chromeErroring
             (initialState liveRatePage brokenStorage) of
        Some st \<Rightarrow> st
      | None \<Rightarrow> initialState liveRatePage brokenStorage)"

definition afterFailedLoadSelection :: state where
  "afterFailedLoadSelection =
     setVideoSpeed js_toString chromeErroring (Num 2.5) 0 afterFailedLoad"

section \<open>Helper lemmas\<close>

subsection \<open>Rate enforcement\<close>

lemma enforceVideos_Cons:
  "enforceVideos now ts t ov (v # vs) =
     (fst (enforceVideos now ts t (fst (enforceVideo now ts t ov v)) vs),
      snd (enforceVideo now ts t ov v)
        # snd (enforceVideos now ts t (fst (enforceVideo now ts t ov v)) vs))"
  by (simp split: prod.splits)

lemma enforceVideos_length: "length (snd (enforceVideos now ts t ov vs)) = length vs"
  by (induction vs arbitrary: ov) (simp_all add: enforceVideos_Cons del: enforceVideos.simps(2))

lemma enforceVideos_skip:
  "enforcerSkips ov ts now \<Longrightarrow> enforceVideos now ts t ov vs = (ov, vs)"
  by (induction vs) (simp_all add: enforceVideo_def)

lemma enforceVideo_elapsed:
  "\<not> now - ts < gracePeriod SPEED_CONFIG \<Longrightarrow>
   enforceVideo now ts t ov v =
     (ov \<and> \<not> exceedsEpsilon v (clampRate t), if exceedsEpsilon v (clampRate t) then clampRate t else v)"
  by (simp add: enforceVideo_def enforcerSkips_def Let_def)

lemma enforceVideos_elapsed:
  "\<not> now - ts < gracePeriod SPEED_CONFIG \<Longrightarrow>
   enforceVideos now ts t ov vs =
     (ov \<and> (\<forall>v \<in> set vs. \<not> exceedsEpsilon v (clampRate t)),
      map (\<lambda>v. if exceedsEpsilon v (clampRate t) then clampRate t else v) vs)"
  by (induction vs arbitrary: ov)
     (auto simp: enforceVideos_Cons enforceVideo_elapsed simp del: enforceVideos.simps(2))

lemma clampRate_simps:
  "clampRate NaN = NaN"
  "clampRate NegInf = Num 0.0625"
  "clampRate PosInf = Num 16"
  "clampRate (Num r) = Num (max 0.0625 (min 16 r))"
  by (auto simp: clampRate_def Math_max_def Math_min_def)

lemma clampRate_range:
  "clampRate t \<noteq> NaN \<Longrightarrow> js_le (Num 0.0625) (clampRate t) \<and> js_le (clampRate t) (Num 16)"
  by (cases t) (auto simp: clampRate_simps js_le_def)

lemma exceedsEpsilon_neq: "exceedsEpsilon v c \<Longrightarrow> c \<noteq> v"
  by (cases v; cases c) (auto simp: exceedsEpsilon_def js_gt_def)

lemma exceedsEpsilon_not_NaN: "exceedsEpsilon v c \<Longrightarrow> c \<noteq> NaN"
  by (cases v) (auto simp: exceedsEpsilon_def js_gt_def)

lemma enforceVideo_frame:
  "\<not> exceedsEpsilon v (clampRate t) \<Longrightarrow> enforceVideo now ts t ov v = (ov, v)"
  by (simp add: enforceVideo_def Let_def)

lemma enforceVideo_snd:
  "snd (enforceVideo now ts t ov v) = v
     \<or> snd (enforceVideo now ts t ov v) = clampRate t \<and> exceedsEpsilon v (clampRate t)"
  by (simp add: enforceVideo_def Let_def)

lemma enforceVideos_frame:
  "i < length vs \<Longrightarrow> \<not> exceedsEpsilon (vs ! i) (clampRate t)
     \<Longrightarrow> snd (enforceVideos now ts t ov vs) ! i = vs ! i"
proof (induction vs arbitrary: ov i)
  case Nil
  then show ?case by simp
next
  case (Cons v vs)
  show ?case
  proof (cases i)
    case 0
    with Cons.prems show ?thesis
      by (simp add: enforceVideos_Cons enforceVideo_frame del: enforceVideos.simps(2))
  next
    case (Suc j)
    with Cons.prems Cons.IH [of j] show ?thesis
      by (simp add: enforceVideos_Cons del: enforceVideos.simps(2))
  qed
qed

lemma enforceVideos_written:
  "i < length vs \<Longrightarrow>
     snd (enforceVideos now ts t ov vs) ! i = vs ! i \<or>
     snd (enforceVideos now ts t ov vs) ! i = clampRate t \<and> exceedsEpsilon (vs ! i) (clampRate t)"
proof (induction vs arbitrary: ov i)
  case Nil
  then show ?case by simp
next
  case (Cons v vs)
  show ?case
  proof (cases i)
    case 0
    with enforceVideo_snd [of now ts t ov v] show ?thesis
      by (simp add: enforceVideos_Cons del: enforceVideos.simps(2))
  next
    case (Suc j)
    with Cons.prems Cons.IH [of j] show ?thesis
      by (simp add: enforceVideos_Cons del: enforceVideos.simps(2))
  qed
qed

lemma enforceVideo_flag:
  "fst (enforceVideo now ts t ov v) \<noteq> ov \<Longrightarrow>
     ov \<and> exceedsEpsilon v (clampRate t) \<and> snd (enforceVideo now ts t ov v) = clampRate t"
  by (auto simp: enforceVideo_def Let_def split: if_splits)

lemma enforceVideos_flag:
  "fst (enforceVideos now ts t ov vs) \<noteq> ov \<Longrightarrow>
     ov \<and> snd (enforceVideos now ts t ov vs) \<noteq> vs"
proof (induction vs arbitrary: ov)
  case Nil
  then show ?case by simp
next
  case (Cons v vs)
  show ?case
  proof (cases "fst (enforceVideo now ts t ov v) = ov")
    case True
    with Cons.prems have "fst (enforceVideos now ts t ov vs) \<noteq> ov"
      by (simp add: enforceVideos_Cons del: enforceVideos.simps(2))
    then have "ov \<and> snd (enforceVideos now ts t ov vs) \<noteq> vs"
      by (rule Cons.IH)
    with True show ?thesis
      by (auto simp: enforceVideos_Cons simp del: enforceVideos.simps(2))
  next
    case False
    from enforceVideo_flag [OF False] exceedsEpsilon_neq [of v "clampRate t"] show ?thesis
      by (auto simp: enforceVideos_Cons simp del: enforceVideos.simps(2))
  qed
qed

lemma applyPlaybackRateToVideos_videos:
  "videos (doc (applyPlaybackRateToVideos now t st)) =
     (if masterEnabled (currentSettings st)
      then snd (enforceVideos now (lastUserInteractionTimestamp st) t
                  (hasUserOverriddenSpeed st) (videos (doc st)))
      else videos (doc st))"
  by (simp add: applyPlaybackRateToVideos_def split: prod.splits)

lemma applyPlaybackRateToVideos_flag:
  "hasUserOverriddenSpeed (applyPlaybackRateToVideos now t st) =
     (if masterEnabled (currentSettings st)
      then fst (enforceVideos now (lastUserInteractionTimestamp st) t
                  (hasUserOverriddenSpeed st) (videos (doc st)))
      else hasUserOverriddenSpeed st)"
  by (simp add: applyPlaybackRateToVideos_def split: prod.splits)

lemma applyPlaybackRateToVideos_settings:
  "currentSettings (applyPlaybackRateToVideos now t st) = currentSettings st"
  by (simp add: applyPlaybackRateToVideos_def split: prod.splits)

lemma applyPlaybackRateToVideos_same:
  "enforceVideos now (lastUserInteractionTimestamp st) t (hasUserOverriddenSpeed st)
     (videos (doc st)) = (hasUserOverriddenSpeed st, videos (doc st))
   \<Longrightarrow> applyPlaybackRateToVideos now t st = st"
  by (simp add: applyPlaybackRateToVideos_def)

lemma afterSelection_eq:
  "afterSelection = (initialState examplePage emptyStorage)
       \<lparr>lastUserInteractionTimestamp := 0, hasUserOverriddenSpeed := True,
        doc := examplePage\<lparr>videos := [Num 2.5]\<rparr>,
        currentSettings := DEFAULT_SETTINGS\<lparr>playbackRate := Num 2.5\<rparr>,
        syncWrites := [Num 2.5], timers := [(150, HideSpeedMenu)]\<rparr>"
  by (simp add: afterSelection_def setVideoSpeed_def initialState_def examplePage_def
      isExtensionContextValid_def isChromeStorageAvailable_def chromeAnswering_def js_le_def
      writeCurrentRate_def)

lemma afterSelection_fields:
  "videos (doc afterSelection) = [Num 2.5]"
  "hasUserOverriddenSpeed afterSelection"
  "lastUserInteractionTimestamp afterSelection = 0"
  "masterEnabled (currentSettings afterSelection)"
  "playbackRate (currentSettings afterSelection) = Num 2.5"
  by (simp_all add: afterSelection_eq initialState_def DEFAULT_SETTINGS_def)

subsection \<open>Flag reconciliation\<close>

lemma blurImage_frame:
  "bodyAttrs (blurImage i d) = bodyAttrs d" "videos (blurImage i d) = videos d"
  by (simp_all add: blurImage_def Let_def split: option.splits)

lemma fold_blurImage_frame:
  "bodyAttrs (fold blurImage is d) = bodyAttrs d" "videos (fold blurImage is d) = videos d"
  by (induction "is" arbitrary: d) (simp_all add: blurImage_frame)

lemma fold_selectors_frame:
  "bodyAttrs (fold (\<lambda>selector d'. fold blurImage (querySelectorAll_img selector d') d') sels d)
     = bodyAttrs d"
  "videos (fold (\<lambda>selector d'. fold blurImage (querySelectorAll_img selector d') d') sels d)
     = videos d"
  by (induction sels arbitrary: d) (simp_all add: fold_blurImage_frame)

lemma applyThumbnailBlur_frame:
  "bodyAttrs (applyThumbnailBlur d) = bodyAttrs d" "videos (applyThumbnailBlur d) = videos d"
  by (simp_all add: applyThumbnailBlur_def fold_selectors_frame)

lemma removeThumbnailBlur_frame:
  "bodyAttrs (removeThumbnailBlur d) = bodyAttrs d" "videos (removeThumbnailBlur d) = videos d"
  by (simp_all add: removeThumbnailBlur_def)

lemma removeThumbnailBlur_images:
  "images (removeThumbnailBlur d) =
     map (\<lambda>im. if img_blurred im then im\<lparr>img_filter := [], img_blurred := False\<rparr> else im)
         (images d)"
  by (simp add: removeThumbnailBlur_def)

lemma applyBodyFlags_videos: "videos (applyBodyFlags s d) = videos d"
  by (simp add: applyBodyFlags_def Let_def applyThumbnailBlur_frame removeThumbnailBlur_frame)

lemma applyBodyFlags_images_off:
  "\<not> (masterEnabled s \<and> blurThumbs s) \<Longrightarrow>
     images (applyBodyFlags s d) =
       map (\<lambda>im. if img_blurred im then im\<lparr>img_filter := [], img_blurred := False\<rparr> else im)
           (images d)"
  by (auto simp: applyBodyFlags_def Let_def removeThumbnailBlur_images)

lemma fold_applyBodyFlag:
  "distinct (map snd es) \<Longrightarrow>
   fold (applyBodyFlag s en) es attrs a =
     (case map_of (map (\<lambda>(k, n). (n, k)) es) a of
        Some k \<Rightarrow> if en \<and> getFlag s k then Some ''true'' else None
      | None \<Rightarrow> attrs a)"
proof (induction es arbitrary: attrs)
  case Nil
  then show ?case by simp
next
  case (Cons e es)
  obtain k n where e: "e = (k, n)" by (cases e)
  from Cons.prems e have n: "n \<notin> snd ` set es" and d: "distinct (map snd es)"
    by auto
  from n have none: "map_of (map (\<lambda>(k, n). (n, k)) es) n = None"
    by (force simp: map_of_eq_None_iff)
  have step: "fold (applyBodyFlag s en) (e # es) attrs a =
     (case map_of (map (\<lambda>(k, n). (n, k)) es) a of
        Some k \<Rightarrow> if en \<and> getFlag s k then Some ''true'' else None
      | None \<Rightarrow> applyBodyFlag s en e attrs a)"
    by (simp add: Cons.IH [OF d])
  show ?case
  proof (cases "a = n")
    case True
    with none show ?thesis
      unfolding step by (simp add: e applyBodyFlag_def split: option.splits)
  next
    case False
    then show ?thesis
      unfolding step by (simp add: e applyBodyFlag_def split: option.splits)
  qed
qed

lemma BODY_FLAG_ATTRIBUTES_distinct: "distinct (map snd BODY_FLAG_ATTRIBUTES)"
  by (simp add: BODY_FLAG_ATTRIBUTES_def)

lemma master_not_feature:
  "map_of (map (\<lambda>(k, n). (n, k)) BODY_FLAG_ATTRIBUTES) ''data-ghostfeed-master-enabled'' = None"
  by (simp add: BODY_FLAG_ATTRIBUTES_def)

text \<open>
  The body attributes after \<open>applyBodyFlags\<close>: each of the nine marker attributes is
  present, with value \<open>true\<close>, exactly when the master flag and its own flag are on;
  every other attribute is as before.
\<close>

lemma applyBodyFlags_bodyAttrs:
  "bodyAttrs (applyBodyFlags s d) a =
     (if a = ''data-ghostfeed-master-enabled''
      then (if masterEnabled s then Some ''true'' else None)
      else case map_of (map (\<lambda>(k, n). (n, k)) BODY_FLAG_ATTRIBUTES) a of
             Some k \<Rightarrow> if masterEnabled s \<and> getFlag s k then Some ''true'' else None
           | None \<Rightarrow> bodyAttrs d a)"
  using master_not_feature
  by (simp add: applyBodyFlags_def Let_def applyThumbnailBlur_frame removeThumbnailBlur_frame
      fold_applyBodyFlag [OF BODY_FLAG_ATTRIBUTES_distinct] split: option.splits)

lemma afterSelection_doc:
  "images (doc afterSelection) = images examplePage"
  "bodyAttrs (doc afterSelection) = bodyAttrs examplePage"
  by (simp_all add: afterSelection_eq initialState_def)

lemma applySettingsImmediately_off:
  "\<not> masterEnabled s \<Longrightarrow>
     doc (applySettingsImmediately s st) =
       (applyBodyFlags s (doc st))\<lparr>videos := map (\<lambda>video. Num 1) (videos (doc st))\<rparr>"
  by (simp add: applySettingsImmediately_def Let_def applyBodyFlags_videos)

lemma marker_lookup:
  "(k, n) \<in> set es \<Longrightarrow> map_of (map (\<lambda>(k, n). (n, k)) es) n \<noteq> None"
  by (induction es) auto

subsection \<open>Numbers as text\<close>

































subsection \<open>Persistence\<close>





lemma getFlag_setFlag: "getFlag (setFlag k b s) k' = (if k' = k then b else getFlag s k')"
  by (cases k; cases k') simp_all

lemma getFlag_rate: "getFlag (s\<lparr>playbackRate := r\<rparr>) k = getFlag s k"
  by (cases k) simp_all

lemma playbackRate_setFlag: "playbackRate (setFlag k b s) = playbackRate s"
  by (cases k) simp_all

lemma settings_eqI:
  fixes a b :: settings
  assumes "\<And>k. getFlag a k = getFlag b k" and "playbackRate a = playbackRate b"
  shows "a = b"
  using assms(1) [of MasterEnabled] assms(1) [of HideHome] assms(1) [of HideShorts]
    assms(1) [of HideComments] assms(1) [of HideSidebar] assms(1) [of HideEndscreen]
    assms(1) [of HideRecs] assms(1) [of HideGuide] assms(1) [of BlurThumbs] assms(2)
  by (cases a; cases b) simp

text \<open>What the fallback tier yields for one flag and for the rate, from the stored text.\<close>

lemma loadKeys_throws:
  "ls_getItem_throws ls \<Longrightarrow> loadKeys pf ls (key # keys) fs = Inl JsError"
  by (simp add: getItem_def)

lemma loadKeys_unset:
  "\<not> ls_getItem_throws ls \<Longrightarrow> ls_items ls (storageKey key) = None
     \<Longrightarrow> loadKeys pf ls (key # keys) fs = loadKeys pf ls keys fs"
  by (simp add: getItem_def)

lemma loadKeys_flag:
  "\<not> ls_getItem_throws ls \<Longrightarrow> ls_items ls (storageKey (Flag k)) = Some stored
     \<Longrightarrow> loadKeys pf ls (Flag k # keys) fs
           = loadKeys pf ls keys (setFlag k (stored = ''true'') fs)"
  by (simp add: getItem_def)

lemma loadKeys_rate:
  "\<not> ls_getItem_throws ls \<Longrightarrow> ls_items ls (storageKey PlaybackRate) = Some stored
     \<Longrightarrow> loadKeys pf ls (PlaybackRate # keys) fs
           = loadKeys pf ls keys
               (if \<not> isNaN (pf stored) \<and> js_gt (pf stored) (Num 0)
                then fs\<lparr>playbackRate := pf stored\<rparr> else fs)"
  by (simp add: getItem_def Let_def)

lemma loadKeys_works:
  "\<not> ls_getItem_throws ls \<Longrightarrow>
   \<exists>fs'. loadKeys pf ls keys fs = Inr fs'
     \<and> (\<forall>k. getFlag fs' k =
           (if Flag k \<in> set keys
            then (case ls_items ls (storageKey (Flag k)) of
                    None \<Rightarrow> getFlag fs k | Some stored \<Rightarrow> stored = ''true'')
            else getFlag fs k))
     \<and> playbackRate fs' =
           (if PlaybackRate \<in> set keys
            then (case ls_items ls (storageKey PlaybackRate) of
                    None \<Rightarrow> playbackRate fs
                  | Some stored \<Rightarrow>
                      if \<not> isNaN (pf stored) \<and> js_gt (pf stored) (Num 0) then pf stored
                      else playbackRate fs)
            else playbackRate fs)"
proof (induction keys arbitrary: fs)
  case Nil
  then show ?case by simp
next
  case (Cons key keys)
  note works = Cons.prems
  note IH = Cons.IH [OF works]
  show ?case
  proof (cases "ls_items ls (storageKey key)")
    case None
    from IH [of fs] obtain fs' where "loadKeys pf ls keys fs = Inr fs'"
      and "\<forall>k. getFlag fs' k =
           (if Flag k \<in> set keys
            then (case ls_items ls (storageKey (Flag k)) of
                    None \<Rightarrow> getFlag fs k | Some stored \<Rightarrow> stored = ''true'')
            else getFlag fs k)"
      and "playbackRate fs' =
           (if PlaybackRate \<in> set keys
            then (case ls_items ls (storageKey PlaybackRate) of
                    None \<Rightarrow> playbackRate fs
                  | Some stored \<Rightarrow>
                      if \<not> isNaN (pf stored) \<and> js_gt (pf stored) (Num 0) then pf stored
                      else playbackRate fs)
            else playbackRate fs)"
      by blast
    with None show ?thesis
      by (auto simp: loadKeys_unset [OF works None] simp del: loadKeys.simps)
  next
    case (Some stored)
    show ?thesis
    proof (cases key)
      case PlaybackRate
      let ?fs1 = "if \<not> isNaN (pf stored) \<and> js_gt (pf stored) (Num 0)
                  then fs\<lparr>playbackRate := pf stored\<rparr> else fs"
      from Some PlaybackRate have st: "ls_items ls (storageKey PlaybackRate) = Some stored"
        by simp
      from IH [of ?fs1] obtain fs' where "loadKeys pf ls keys ?fs1 = Inr fs'"
        and "\<forall>k. getFlag fs' k =
           (if Flag k \<in> set keys
            then (case ls_items ls (storageKey (Flag k)) of
                    None \<Rightarrow> getFlag ?fs1 k | Some stored \<Rightarrow> stored = ''true'')
            else getFlag ?fs1 k)"
        and "playbackRate fs' =
           (if PlaybackRate \<in> set keys
            then (case ls_items ls (storageKey PlaybackRate) of
                    None \<Rightarrow> playbackRate ?fs1
                  | Some stored \<Rightarrow>
                      if \<not> isNaN (pf stored) \<and> js_gt (pf stored) (Num 0) then pf stored
                      else playbackRate ?fs1)
            else playbackRate ?fs1)"
        by blast
      moreover have "getFlag ?fs1 k = getFlag fs k" for k
        by (simp add: getFlag_rate)
      ultimately show ?thesis
        unfolding PlaybackRate loadKeys_rate [OF works st]
        using st by (auto split: option.splits)
    next
      case (Flag k)
      let ?fs1 = "setFlag k (stored = ''true'') fs"
      from Some Flag have st: "ls_items ls (storageKey (Flag k)) = Some stored"
        by simp
      from IH [of ?fs1] obtain fs' where "loadKeys pf ls keys ?fs1 = Inr fs'"
        and "\<forall>k'. getFlag fs' k' =
           (if Flag k' \<in> set keys
            then (case ls_items ls (storageKey (Flag k')) of
                    None \<Rightarrow> getFlag ?fs1 k' | Some stored \<Rightarrow> stored = ''true'')
            else getFlag ?fs1 k')"
        and "playbackRate fs' =
           (if PlaybackRate \<in> set keys
            then (case ls_items ls (storageKey PlaybackRate) of
                    None \<Rightarrow> playbackRate ?fs1
                  | Some stored \<Rightarrow>
                      if \<not> isNaN (pf stored) \<and> js_gt (pf stored) (Num 0) then pf stored
                      else playbackRate ?fs1)
            else playbackRate ?fs1)"
        by blast
      with st show ?thesis
        unfolding Flag loadKeys_flag [OF works st]
        by (auto simp: getFlag_setFlag playbackRate_setFlag split: option.splits)
    qed
  qed
qed

lemma settingKeys_all: "key \<in> set settingKeys"
proof (cases key)
  case (Flag k)
  then show ?thesis by (cases k) (simp_all add: settingKeys_def)
next
  case PlaybackRate
  then show ?thesis by (simp add: settingKeys_def)
qed

lemma loadFromLocalStorageFallback_throws:
  "ls_getItem_throws ls \<Longrightarrow> loadFromLocalStorageFallback pf defaults ls = TheDefaults"
  by (simp add: loadFromLocalStorageFallback_def settingKeys_def loadKeys_throws
      del: loadKeys.simps)

lemma loadFromLocalStorageFallback_works:
  assumes "\<not> ls_getItem_throws ls"
  shows "\<exists>fs. loadFromLocalStorageFallback pf defaults ls = Fresh fs
     \<and> (\<forall>k. getFlag fs k =
           (case ls_items ls (storageKey (Flag k)) of
              None \<Rightarrow> getFlag defaults k | Some stored \<Rightarrow> stored = ''true''))
     \<and> playbackRate fs =
           (case ls_items ls (storageKey PlaybackRate) of
              None \<Rightarrow> playbackRate defaults
            | Some stored \<Rightarrow>
                if \<not> isNaN (pf stored) \<and> js_gt (pf stored) (Num 0) then pf stored
                else playbackRate defaults)"
proof -
  from loadKeys_works [OF assms, of pf settingKeys defaults]
  obtain fs' where fs': "loadKeys pf ls settingKeys defaults = Inr fs'"
    and flags: "\<And>k. getFlag fs' k =
           (case ls_items ls (storageKey (Flag k)) of
              None \<Rightarrow> getFlag defaults k | Some stored \<Rightarrow> stored = ''true'')"
    and rate: "playbackRate fs' =
           (case ls_items ls (storageKey PlaybackRate) of
              None \<Rightarrow> playbackRate defaults
            | Some stored \<Rightarrow>
                if \<not> isNaN (pf stored) \<and> js_gt (pf stored) (Num 0) then pf stored
                else playbackRate defaults)"
    by (auto simp: settingKeys_all)
  from fs' have "loadFromLocalStorageFallback pf defaults ls = Fresh fs'"
    by (simp add: loadFromLocalStorageFallback_def)
  with flags rate show ?thesis by blast
qed















subsection \<open>The current snapshot\<close>

lemma startPlaybackRateWatcher_settings:
  "currentSettings (startPlaybackRateWatcher st) = currentSettings st"
  by (simp add: startPlaybackRateWatcher_def)

lemma injectSpeedControls_settings:
  "currentSettings (injectSpeedControls st) = currentSettings st"
  by (simp add: injectSpeedControls_def)

lemma cleanupSpeedControls_settings:
  "currentSettings (cleanupSpeedControls st) = currentSettings st"
  by (simp add: cleanupSpeedControls_def)

lemma saveRateToLocalStorage_settings:
  "currentSettings (saveRateToLocalStorage nts speed st) = currentSettings st"
  by (simp add: saveRateToLocalStorage_def split: sum.splits)

lemma setVideoSpeed_settings:
  "currentSettings (setVideoSpeed nts env speed now st) =
     (case videos (doc st) of
        [] \<Rightarrow> currentSettings st
      | video # rest \<Rightarrow>
          if isNaN speed \<or> js_le speed (Num 0) then currentSettings st
          else (currentSettings st)\<lparr>playbackRate := speed\<rparr>)"
  by (simp add: setVideoSpeed_def Let_def saveRateToLocalStorage_settings
      writeCurrentRate_def split: list.splits sync_set_outcome.splits)

lemma applySettingsImmediately_settings:
  "currentSettings (applySettingsImmediately s st) =
     (case videos (doc st) of
        [] \<Rightarrow> currentSettings st
      | video # rest \<Rightarrow>
          if masterEnabled s \<and> \<not> (truthy (playbackRate s) \<and> js_strict_neq (playbackRate s) (Num 1))
          then (currentSettings st)\<lparr>playbackRate := video\<rparr>
          else currentSettings st)"
  by (simp add: applySettingsImmediately_def Let_def applyBodyFlags_videos
      writeCurrentRate_def split: list.splits)

lemma handleNewVideoDetected_settings:
  "currentSettings (handleNewVideoDetected now st) = currentSettings st"
  by (simp add: handleNewVideoDetected_def Let_def applyPlaybackRateToVideos_settings)

lemma storageSyncGet_allItems:
  "storageSyncGet defaults (allItems s) = s"
  by (simp add: storageSyncGet_def storedFlag_def allItems_def)

lemma load_resolves:
  "\<exists>ref ls'. loadSettingsFromStorage pf nts env defaults ls = Resolved (ref, ls')"
  by (simp add: loadSettingsFromStorage_def Let_def split: sync_get_outcome.splits)

lemma assignCurrentSettings_fields:
  "currentSettings (assignCurrentSettings ref st) = snapshotOf (defaultsObject st) ref"
  "doc (assignCurrentSettings ref st) = doc st"
  "hasUserOverriddenSpeed (assignCurrentSettings ref st) = hasUserOverriddenSpeed st"
  "lastUserInteractionTimestamp (assignCurrentSettings ref st) = lastUserInteractionTimestamp st"
  "defaultsObject (assignCurrentSettings ref st) = defaultsObject st"
  by (simp_all add: assignCurrentSettings_def)

lemma writeCurrentRate_fields:
  "currentSettings (writeCurrentRate rate st) = (currentSettings st)\<lparr>playbackRate := rate\<rparr>"
  "doc (writeCurrentRate rate st) = doc st"
  "hasUserOverriddenSpeed (writeCurrentRate rate st) = hasUserOverriddenSpeed st"
  "lastUserInteractionTimestamp (writeCurrentRate rate st) = lastUserInteractionTimestamp st"
  "localStorage (writeCurrentRate rate st) = localStorage st"
  "syncWrites (writeCurrentRate rate st) = syncWrites st"
  "timers (writeCurrentRate rate st) = timers st"
  "currentIsDefaults (writeCurrentRate rate st) = currentIsDefaults st"
  "defaultsObject (writeCurrentRate rate st) =
     (if currentIsDefaults st then (defaultsObject st)\<lparr>playbackRate := rate\<rparr>
      else defaultsObject st)"
  by (simp_all add: writeCurrentRate_def)

lemma reapplyAfterChange_settings:
  "currentSettings (reapplyAfterChange now st) =
     (if changeHandlerDefers (hasUserOverriddenSpeed st) (lastUserInteractionTimestamp st) now
      then currentSettings st
      else currentSettings (applySettingsImmediately (currentSettings st) st))"
  by (simp add: reapplyAfterChange_def)

lemma updateSpeedControls_settings:
  "currentSettings (updateSpeedControls wasEnabled st) = currentSettings st"
  by (simp add: updateSpeedControls_def injectSpeedControls_settings cleanupSpeedControls_settings)

lemma updateThumbnailBlur_settings:
  "currentSettings (updateThumbnailBlur wasBlurEnabled st) = currentSettings st"
  by (simp add: updateThumbnailBlur_def)

lemma resetRatesOnDisable_settings:
  "currentSettings (resetRatesOnDisable wasEnabled st) = currentSettings st"
  by (simp add: resetRatesOnDisable_def)

lemma handleStorageChanges_settings:
  assumes "loadSettingsFromStorage pf nts env (defaultsObject st) (localStorage st)
             = Resolved (ref, ls')"
    and "loaded = snapshotOf (defaultsObject st) ref"
  shows "\<exists>st'. handleStorageChanges pf nts env ''sync'' now st = Some st'
     \<and> currentSettings st' =
         (if changeHandlerDefers (hasUserOverriddenSpeed st) (lastUserInteractionTimestamp st) now
          then loaded
          else case videos (doc st) of
                 [] \<Rightarrow> loaded
               | video # rest \<Rightarrow>
                   if masterEnabled loaded
                      \<and> \<not> (truthy (playbackRate loaded) \<and> js_strict_neq (playbackRate loaded) (Num 1))
                   then loaded\<lparr>playbackRate := video\<rparr>
                   else loaded)"
  using assms
  by (auto simp: handleStorageChanges_def Let_def resetRatesOnDisable_settings
      updateThumbnailBlur_settings updateSpeedControls_settings
      startPlaybackRateWatcher_settings reapplyAfterChange_settings
      applySettingsImmediately_settings assignCurrentSettings_def split: list.splits)

lemma initializeExtension_settings:
  assumes "loadSettingsFromStorage pf nts env (defaultsObject st) (localStorage st)
             = Resolved (ref, ls')"
    and "loaded = snapshotOf (defaultsObject st) ref"
  shows "\<exists>st'. initializeExtension pf nts env st = Some st'
     \<and> currentSettings st' =
         (case videos (doc st) of
            [] \<Rightarrow> loaded
          | video # rest \<Rightarrow>
              if masterEnabled loaded
                 \<and> \<not> (truthy (playbackRate loaded) \<and> js_strict_neq (playbackRate loaded) (Num 1))
              then loaded\<lparr>playbackRate := video\<rparr>
              else loaded)"
  using assms
  by (auto simp: initializeExtension_def Let_def applySettingsImmediately_settings
      startPlaybackRateWatcher_settings injectSpeedControls_settings
      assignCurrentSettings_def split: list.splits)

subsection \<open>The change handler and scenario C\<close>

lemma applySettingsImmediately_interaction:
  "hasUserOverriddenSpeed (applySettingsImmediately s st) = hasUserOverriddenSpeed st"
  "lastUserInteractionTimestamp (applySettingsImmediately s st) = lastUserInteractionTimestamp st"
  by (simp_all add: applySettingsImmediately_def Let_def writeCurrentRate_def
      split: list.splits)

lemma reapplyAfterChange_interaction:
  "hasUserOverriddenSpeed (reapplyAfterChange now st) = hasUserOverriddenSpeed st"
  "lastUserInteractionTimestamp (reapplyAfterChange now st) = lastUserInteractionTimestamp st"
  by (simp_all add: reapplyAfterChange_def applySettingsImmediately_interaction)

lemma startPlaybackRateWatcher_interaction:
  "hasUserOverriddenSpeed (startPlaybackRateWatcher st) = hasUserOverriddenSpeed st"
  "lastUserInteractionTimestamp (startPlaybackRateWatcher st) = lastUserInteractionTimestamp st"
  by (simp_all add: startPlaybackRateWatcher_def)

lemma updateSpeedControls_interaction:
  "hasUserOverriddenSpeed (updateSpeedControls w st) = hasUserOverriddenSpeed st"
  "lastUserInteractionTimestamp (updateSpeedControls w st) = lastUserInteractionTimestamp st"
  by (simp_all add: updateSpeedControls_def injectSpeedControls_def cleanupSpeedControls_def)

lemma updateThumbnailBlur_interaction:
  "hasUserOverriddenSpeed (updateThumbnailBlur w st) = hasUserOverriddenSpeed st"
  "lastUserInteractionTimestamp (updateThumbnailBlur w st) = lastUserInteractionTimestamp st"
  by (simp_all add: updateThumbnailBlur_def)

lemma resetRatesOnDisable_interaction:
  "hasUserOverriddenSpeed (resetRatesOnDisable w st) = hasUserOverriddenSpeed st"
  "lastUserInteractionTimestamp (resetRatesOnDisable w st) = lastUserInteractionTimestamp st"
  by (simp_all add: resetRatesOnDisable_def)

lemma handleStorageChanges_interaction:
  "handleStorageChanges pf nts env area now st = Some st' \<Longrightarrow>
     hasUserOverriddenSpeed st' = hasUserOverriddenSpeed st
     \<and> lastUserInteractionTimestamp st' = lastUserInteractionTimestamp st"
  by (auto simp: handleStorageChanges_def Let_def resetRatesOnDisable_interaction
      updateThumbnailBlur_interaction updateSpeedControls_interaction
      startPlaybackRateWatcher_interaction reapplyAfterChange_interaction
      assignCurrentSettings_fields split: if_splits promise.splits)

lemma reapplyAfterChange_defers:
  "changeHandlerDefers (hasUserOverriddenSpeed st) (lastUserInteractionTimestamp st) now \<Longrightarrow>
     videos (doc (reapplyAfterChange now st)) = videos (doc st)
     \<and> currentSettings (reapplyAfterChange now st) = currentSettings st"
  by (simp add: reapplyAfterChange_def applyBodyFlags_videos)

lemma startPlaybackRateWatcher_doc: "doc (startPlaybackRateWatcher st) = doc st"
  by (simp add: startPlaybackRateWatcher_def)

lemma updateSpeedControls_doc: "doc (updateSpeedControls w st) = doc st"
  by (simp add: updateSpeedControls_def injectSpeedControls_def cleanupSpeedControls_def)

lemma updateThumbnailBlur_videos: "videos (doc (updateThumbnailBlur w st)) = videos (doc st)"
  by (simp add: updateThumbnailBlur_def removeThumbnailBlur_frame)

lemma resetRatesOnDisable_on:
  "masterEnabled (currentSettings st) \<Longrightarrow> resetRatesOnDisable w st = st"
  by (simp add: resetRatesOnDisable_def)

lemma handleStorageChanges_defers_videos:
  assumes load: "loadSettingsFromStorage pf nts env (defaultsObject st) (localStorage st)
                   = Resolved (ref, ls')"
    and loaded: "loaded = snapshotOf (defaultsObject st) ref"
    and defers: "changeHandlerDefers (hasUserOverriddenSpeed st) (lastUserInteractionTimestamp st) now"
    and on: "masterEnabled loaded"
  shows "\<exists>st'. handleStorageChanges pf nts env ''sync'' now st = Some st'
           \<and> videos (doc st') = videos (doc st) \<and> currentSettings st' = loaded"
proof -
  let ?st1 = "assignCurrentSettings ref (st\<lparr>localStorage := ls'\<rparr>)"
  let ?st2 = "reapplyAfterChange now ?st1"
  let ?st5 = "updateThumbnailBlur (blurThumbs (currentSettings st))
                (updateSpeedControls (masterEnabled (currentSettings st))
                   (startPlaybackRateWatcher ?st2))"
  from defers have "changeHandlerDefers (hasUserOverriddenSpeed ?st1)
                      (lastUserInteractionTimestamp ?st1) now"
    by (simp add: assignCurrentSettings_fields)
  from reapplyAfterChange_defers [OF this]
  have st2: "videos (doc ?st2) = videos (doc st)" "currentSettings ?st2 = loaded"
    by (simp_all add: assignCurrentSettings_fields loaded)
  have st5: "videos (doc ?st5) = videos (doc st)" "currentSettings ?st5 = loaded"
    by (simp_all add: st2 updateThumbnailBlur_videos updateSpeedControls_doc
        startPlaybackRateWatcher_doc updateThumbnailBlur_settings updateSpeedControls_settings
        startPlaybackRateWatcher_settings)
  from on st5(2) have "resetRatesOnDisable (masterEnabled (currentSettings st)) ?st5 = ?st5"
    by (simp add: resetRatesOnDisable_on)
  with load have "handleStorageChanges pf nts env ''sync'' now st = Some ?st5"
    by (simp add: handleStorageChanges_def Let_def)
  with st5 show ?thesis by blast
qed

lemma scenarioC_fields:
  "videos (doc scenarioC) = [Num 2.5]"
  "hasUserOverriddenSpeed scenarioC"
  "lastUserInteractionTimestamp scenarioC = 0"
  "currentSettings scenarioC = DEFAULT_SETTINGS"
  "targetRate scenarioC = Num 1"
proof -
  let ?st1 = "setVideoSpeed presetToString chromeWriteFailing (Num 2.5) 0
                (initialState examplePage emptyStorage)"
  have st1: "videos (doc ?st1) = [Num 2.5]" "hasUserOverriddenSpeed ?st1"
    "lastUserInteractionTimestamp ?st1 = 0"
    by (simp_all add: setVideoSpeed_def initialState_def examplePage_def js_le_def Let_def
        isExtensionContextValid_def isChromeStorageAvailable_def chromeWriteFailing_def
        saveRateToLocalStorage_def setItem_def emptyStorage_def writeCurrentRate_def)
  have load: "loadSettingsFromStorage parsePresetText presetToString chromeWriteFailing
                (defaultsObject ?st1) (localStorage ?st1)
              = Resolved (Fresh DEFAULT_SETTINGS,
                  saveToLocalStorageBackup presetToString DEFAULT_SETTINGS (localStorage ?st1))"
    by (simp add: loadSettingsFromStorage_def isChromeStorageAvailable_def
        chromeWriteFailing_def Let_def storageSyncGet_allItems snapshotOf_def)
  have loaded: "DEFAULT_SETTINGS = snapshotOf (defaultsObject ?st1) (Fresh DEFAULT_SETTINGS)"
    by (simp add: snapshotOf_def)
  have defers: "changeHandlerDefers (hasUserOverriddenSpeed ?st1)
                  (lastUserInteractionTimestamp ?st1) 500"
    using st1 by (simp add: changeHandlerDefers_def)
  have on: "masterEnabled DEFAULT_SETTINGS"
    by (simp add: DEFAULT_SETTINGS_def)
  from handleStorageChanges_defers_videos [OF load loaded defers on]
  obtain st' where h: "handleStorageChanges parsePresetText presetToString chromeWriteFailing
                         ''sync'' 500 ?st1 = Some st'"
    and v: "videos (doc st') = videos (doc ?st1)" and c: "currentSettings st' = DEFAULT_SETTINGS"
    by blast
  from h have eq: "scenarioC = st'"
    by (simp add: scenarioC_def)
  from handleStorageChanges_interaction [OF h] st1
  have i: "hasUserOverriddenSpeed st'" "lastUserInteractionTimestamp st' = 0"
    by simp_all
  show "videos (doc scenarioC) = [Num 2.5]" unfolding eq using v st1 by simp
  show "hasUserOverriddenSpeed scenarioC" unfolding eq by (rule i)
  show "lastUserInteractionTimestamp scenarioC = 0" unfolding eq by (rule i)
  show "currentSettings scenarioC = DEFAULT_SETTINGS" unfolding eq by (rule c)
  then show "targetRate scenarioC = Num 1"
    by (simp add: targetRate_def DEFAULT_SETTINGS_def)
qed

text \<open>
  Right after a selection in the control the snapshot holds the selected rate, so the
  watcher's own tick, which takes its target from the snapshot, has nothing to write
  even after the grace period.
\<close>

lemma watcher_after_selection:
  "targetRate afterSelection = Num 2.5
   \<and> videos (doc (watcherTick 6000 afterSelection)) = [Num 2.5]"
  by (simp add: watcherTick_def targetRate_def afterSelection_fields
      applyPlaybackRateToVideos_videos enforceVideo_def enforcerSkips_def SPEED_CONFIG_def
      clampRate_simps exceedsEpsilon_def js_gt_def)

subsection \<open>The defaults object\<close>

lemma chromeErroring_available: "isChromeStorageAvailable chromeErroring"
  by (simp add: isChromeStorageAvailable_def chromeErroring_def)

lemma fallback_broken:
  "loadFromLocalStorageFallback pf defaults brokenStorage = TheDefaults"
  by (rule loadFromLocalStorageFallback_throws) (simp add: brokenStorage_def)

lemma load_broken:
  "loadSettingsFromStorage pf nts chromeErroring defaults brokenStorage
     = Resolved (TheDefaults, brokenStorage)"
proof -
  have "sync_get chromeErroring = GetLastError"
    by (simp add: chromeErroring_def)
  then show ?thesis
    by (simp add: loadSettingsFromStorage_def chromeErroring_available fallback_broken)
qed

lemma afterFailedLoad_init:
  "initializeExtension js_parseFloat js_toString chromeErroring
     (initialState liveRatePage brokenStorage) = Some afterFailedLoad"
  by (simp add: afterFailedLoad_def initializeExtension_def load_broken initialState_def
      Let_def)

lemma afterFailedLoad_fields:
  "currentIsDefaults afterFailedLoad"
  "defaultsObject afterFailedLoad = DEFAULT_SETTINGS\<lparr>playbackRate := Num 2\<rparr>"
  "currentSettings afterFailedLoad = DEFAULT_SETTINGS\<lparr>playbackRate := Num 2\<rparr>"
  "localStorage afterFailedLoad = brokenStorage"
  "videos (doc afterFailedLoad) = [Num 2, Num 1]"
  by (simp_all add: afterFailedLoad_def initializeExtension_def load_broken initialState_def
      assignCurrentSettings_def snapshotOf_def applySettingsImmediately_def Let_def
      applyBodyFlags_videos liveRatePage_def writeCurrentRate_def startPlaybackRateWatcher_def
      injectSpeedControls_def DEFAULT_SETTINGS_def js_strict_neq_def)

lemma afterFailedLoadSelection_fields:
  "defaultsObject afterFailedLoadSelection = DEFAULT_SETTINGS\<lparr>playbackRate := Num 2.5\<rparr>"
  "localStorage afterFailedLoadSelection = brokenStorage"
  "videos (doc afterFailedLoadSelection) = [Num 2.5, Num 1]"
  by (simp_all add: afterFailedLoadSelection_def setVideoSpeed_def Let_def
      afterFailedLoad_fields js_le_def writeCurrentRate_def chromeErroring_available
      saveRateToLocalStorage_def setItem_def brokenStorage_def chromeErroring_def
      split: list.splits)

lemma fallback_empty:
  "loadFromLocalStorageFallback pf defaults emptyStorage = Fresh defaults"
proof -
  have r: "\<not> ls_getItem_throws emptyStorage"
    by (simp add: emptyStorage_def)
  from loadFromLocalStorageFallback_works [OF r, of pf defaults]
  obtain fs where fs: "loadFromLocalStorageFallback pf defaults emptyStorage = Fresh fs"
    and flags: "\<And>k. getFlag fs k = getFlag defaults k"
    and rate: "playbackRate fs = playbackRate defaults"
    by (auto simp: emptyStorage_def)
  from flags rate have "fs = defaults" by (rule settings_eqI)
  with fs show ?thesis by simp
qed

section \<open>The claims\<close>

text \<open>
  Claim C1 (grace window). The grace period is 5000 ms. A tick of the enforcer at a time
  strictly between the last manual rate change \<open>T\<close> and \<open>T + gracePeriod\<close>, with the
  override active, leaves the whole state, and so every element's rate, as it was. A tick
  at or after \<open>T + gracePeriod\<close>, with the master flag on, sets every element whose rate
  is more than 0.01 away from the clamped target to the clamped target, and leaves the
  others. Scenario C (\<open>scenarioC\<close>): the user picked 2.5x at time 0 and the stored target
  is 1x; the watcher's tick at 1000 ms leaves the element at 2.5x, and its tick at
  6000 ms sets the element to 1x.
\<close>

theorem grace_window:
  "gracePeriod SPEED_CONFIG = 5000
   \<and> (hasUserOverriddenSpeed st \<and> lastUserInteractionTimestamp st < now
        \<and> now < lastUserInteractionTimestamp st + gracePeriod SPEED_CONFIG
      \<longrightarrow> applyPlaybackRateToVideos now target st = st)
   \<and> (masterEnabled (currentSettings st)
        \<and> lastUserInteractionTimestamp st + gracePeriod SPEED_CONFIG \<le> now
      \<longrightarrow> videos (doc (applyPlaybackRateToVideos now target st)) =
            map (\<lambda>rate. if exceedsEpsilon rate (clampRate target) then clampRate target else rate)
                (videos (doc st)))
   \<and> videos (doc scenarioC) = [Num 2.5] \<and> targetRate scenarioC = Num 1
   \<and> hasUserOverriddenSpeed scenarioC \<and> lastUserInteractionTimestamp scenarioC = 0
   \<and> videos (doc (watcherTick 1000 scenarioC)) = [Num 2.5]
   \<and> videos (doc (watcherTick 6000 (watcherTick 1000 scenarioC))) = [Num 1]"
proof -
  have grace: "gracePeriod SPEED_CONFIG = 5000"
    by (simp add: SPEED_CONFIG_def)
  have skip: "applyPlaybackRateToVideos n tg s = s"
    if "hasUserOverriddenSpeed s" "n < lastUserInteractionTimestamp s + gracePeriod SPEED_CONFIG"
    for n tg s
  proof -
    from that have "enforcerSkips (hasUserOverriddenSpeed s) (lastUserInteractionTimestamp s) n"
      by (simp add: enforcerSkips_def)
    then show ?thesis
      by (simp add: applyPlaybackRateToVideos_same enforceVideos_skip)
  qed
  have after: "videos (doc (applyPlaybackRateToVideos n tg s)) =
            map (\<lambda>rate. if exceedsEpsilon rate (clampRate tg) then clampRate tg else rate)
                (videos (doc s))"
    if "masterEnabled (currentSettings s)"
       "lastUserInteractionTimestamp s + gracePeriod SPEED_CONFIG \<le> n"
    for n tg s
  proof -
    from that(2) have "\<not> n - lastUserInteractionTimestamp s < gracePeriod SPEED_CONFIG"
      by simp
    with that(1) show ?thesis
      by (simp add: applyPlaybackRateToVideos_videos enforceVideos_elapsed)
  qed
  have s1: "watcherTick 1000 scenarioC = scenarioC"
    unfolding watcherTick_def by (rule skip) (simp_all add: scenarioC_fields grace)
  have s2: "videos (doc (watcherTick 6000 scenarioC)) = [Num 1]"
    unfolding watcherTick_def
    by (subst after)
       (simp_all add: scenarioC_fields grace DEFAULT_SETTINGS_def clampRate_simps
          exceedsEpsilon_def js_gt_def)
  from grace skip after s1 s2 show ?thesis
    by (simp add: scenarioC_fields)
qed

theorem grace_window_witness:
  "hasUserOverriddenSpeed scenarioC \<and> lastUserInteractionTimestamp scenarioC < 1000
   \<and> 1000 < lastUserInteractionTimestamp scenarioC + gracePeriod SPEED_CONFIG
   \<and> applyPlaybackRateToVideos 1000 (Num 1) scenarioC = scenarioC
   \<and> masterEnabled (currentSettings scenarioC)
   \<and> lastUserInteractionTimestamp scenarioC + gracePeriod SPEED_CONFIG \<le> 6000
   \<and> videos (doc (applyPlaybackRateToVideos 6000 (Num 1) scenarioC)) = [Num 1]"
  using grace_window [of scenarioC 1000 "Num 1"] grace_window [of scenarioC 6000 "Num 1"]
  by (simp add: scenarioC_fields DEFAULT_SETTINGS_def SPEED_CONFIG_def
      clampRate_simps exceedsEpsilon_def js_gt_def)

text \<open>
  Claim C2 (same grace check in the change handler and in the enforcer), as stated: the
  two tests would be equal as functions. They are not: with the override active and
  4000 ms elapsed, the enforcer skips the element and the change handler does not defer.
\<close>

theorem grace_checks_differ:
  "changeHandlerDefers True 0 4000 \<noteq> enforcerSkips True 0 4000"
  by (simp add: changeHandlerDefers_def enforcerSkips_def SPEED_CONFIG_def)

text \<open>
  Claim C2, amended. The change handler uses a window of 3000 ms and the enforcer one of
  5000 ms (\<open>gracePeriod\<close>): whenever the change handler defers, the enforcer skips, and
  the two tests agree exactly when it is not the case that the override is active with
  an elapsed time of at least 3000 ms and less than 5000 ms.
\<close>

theorem grace_checks_related:
  "(changeHandlerDefers hasOverride lastTimestamp now
      \<longrightarrow> enforcerSkips hasOverride lastTimestamp now)
   \<and> ((changeHandlerDefers hasOverride lastTimestamp now = enforcerSkips hasOverride lastTimestamp now)
        = (\<not> (hasOverride \<and> 3000 \<le> now - lastTimestamp \<and> now - lastTimestamp < 5000)))"
  by (auto simp: changeHandlerDefers_def enforcerSkips_def SPEED_CONFIG_def)

theorem grace_checks_related_witness:
  "changeHandlerDefers True 0 1000 \<and> enforcerSkips True 0 1000
   \<and> changeHandlerDefers True 0 1000 = enforcerSkips True 0 1000"
  using grace_checks_related [of True 0 1000]
  by (simp add: changeHandlerDefers_def)

text \<open>
  Claim C3 (clamp correctness, two bounds). A tick of the enforcer keeps the number of
  elements, and each element's rate after the tick is either its rate before or the value
  \<open>max(0.0625, min(16, target))\<close>, which then lies in \<open>[0.0625, 16]\<close>. The free-form
  entry accepts a parsed value exactly when it is a finite number in \<open>[0.1, 16]\<close>; on any
  other parsed value (out of range, \<open>NaN\<close>, infinite) the \<open>change\<close> and \<open>keydown\<close>
  listeners leave the state as it was, and on an accepted value, with a video present,
  they run \<open>setVideoSpeed\<close> on it.
\<close>

theorem clamp_bounds:
  "length (videos (doc (applyPlaybackRateToVideos now target st))) = length (videos (doc st))
   \<and> (\<forall>i < length (videos (doc st)).
         videos (doc (applyPlaybackRateToVideos now target st)) ! i = videos (doc st) ! i
         \<or> (videos (doc (applyPlaybackRateToVideos now target st)) ! i
              = Math_max (Num 0.0625) (Math_min (Num 16) target)
            \<and> js_le (Num 0.0625) (videos (doc (applyPlaybackRateToVideos now target st)) ! i)
            \<and> js_le (videos (doc (applyPlaybackRateToVideos now target st)) ! i) (Num 16)))
   \<and> customRangeAccepts speed = (case speed of Num r \<Rightarrow> 0.1 \<le> r \<and> r \<le> 16 | _ \<Rightarrow> False)
   \<and> (\<not> customRangeAccepts (parseFloat text)
        \<longrightarrow> customInputChange parseFloat numberToString env text now st = st
          \<and> customInputKeydown parseFloat numberToString env key text now st = st)
   \<and> (customRangeAccepts (parseFloat text) \<and> videos (doc st) \<noteq> []
        \<longrightarrow> customInputChange parseFloat numberToString env text now st
              = setVideoSpeed numberToString env (parseFloat text) now st
          \<and> customInputKeydown parseFloat numberToString env ''Enter'' text now st
              = setVideoSpeed numberToString env (parseFloat text) now st)"
proof -
  have len: "length (videos (doc (applyPlaybackRateToVideos now target st))) = length (videos (doc st))"
    by (simp add: applyPlaybackRateToVideos_videos enforceVideos_length)
  have range: "videos (doc (applyPlaybackRateToVideos now target st)) ! i = videos (doc st) ! i
         \<or> (videos (doc (applyPlaybackRateToVideos now target st)) ! i
              = Math_max (Num 0.0625) (Math_min (Num 16) target)
            \<and> js_le (Num 0.0625) (videos (doc (applyPlaybackRateToVideos now target st)) ! i)
            \<and> js_le (videos (doc (applyPlaybackRateToVideos now target st)) ! i) (Num 16))"
    if "i < length (videos (doc st))" for i
  proof (cases "masterEnabled (currentSettings st)")
    case False
    then show ?thesis by (simp add: applyPlaybackRateToVideos_videos)
  next
    case True
    from enforceVideos_written [OF that, of now "lastUserInteractionTimestamp st" target
        "hasUserOverriddenSpeed st"]
    show ?thesis
    proof
      assume "snd (enforceVideos now (lastUserInteractionTimestamp st) target
                (hasUserOverriddenSpeed st) (videos (doc st))) ! i = videos (doc st) ! i"
      with True show ?thesis by (simp add: applyPlaybackRateToVideos_videos)
    next
      assume w: "snd (enforceVideos now (lastUserInteractionTimestamp st) target
                (hasUserOverriddenSpeed st) (videos (doc st))) ! i = clampRate target
              \<and> exceedsEpsilon (videos (doc st) ! i) (clampRate target)"
      then have "clampRate target \<noteq> NaN" by (blast dest: exceedsEpsilon_not_NaN)
      from clampRate_range [OF this] w True show ?thesis
        by (simp add: applyPlaybackRateToVideos_videos clampRate_def)
    qed
  qed
  have acc: "customRangeAccepts speed = (case speed of Num r \<Rightarrow> 0.1 \<le> r \<and> r \<le> 16 | _ \<Rightarrow> False)"
    by (cases speed)
       (auto simp: customRangeAccepts_def SPEED_CONFIG_def js_ge_def js_le_def)
  have rej: "customInputChange parseFloat numberToString env text now st = st
          \<and> customInputKeydown parseFloat numberToString env key text now st = st"
    if "\<not> customRangeAccepts (parseFloat text)"
    using that by (simp add: customInputChange_def customInputKeydown_def)
  have ok: "customInputChange parseFloat numberToString env text now st
              = setVideoSpeed numberToString env (parseFloat text) now st
          \<and> customInputKeydown parseFloat numberToString env ''Enter'' text now st
              = setVideoSpeed numberToString env (parseFloat text) now st"
    if "customRangeAccepts (parseFloat text)" "videos (doc st) \<noteq> []"
    using that by (simp add: customInputChange_def customInputKeydown_def split: list.splits)
  from len range acc rej ok show ?thesis by blast
qed

theorem clamp_bounds_witness:
  "(0::nat) < length (videos (doc afterSelection))
   \<and> videos (doc (applyPlaybackRateToVideos 7000 (Num 20) afterSelection)) ! 0 = Num 16
   \<and> Math_max (Num 0.0625) (Math_min (Num 16) (Num 20)) = Num 16
   \<and> \<not> customRangeAccepts (parsePresetText ''20'')
   \<and> customInputChange parsePresetText presetToString chromeMissing ''20'' 7000 afterSelection = afterSelection
   \<and> customRangeAccepts (parsePresetText ''0.5'') \<and> videos (doc afterSelection) \<noteq> []
   \<and> customInputChange parsePresetText presetToString chromeMissing ''0.5'' 7000 afterSelection
       = setVideoSpeed presetToString chromeMissing (Num 0.5) 7000 afterSelection"
  using clamp_bounds [of 7000 "Num 20" afterSelection "Num 20" parsePresetText "''20''" presetToString
                         chromeMissing "''Enter''"]
        clamp_bounds [of 7000 "Num 20" afterSelection "Num 0.5" parsePresetText "''0.5''" presetToString
                         chromeMissing "''Enter''"]
  by (simp add: afterSelection_fields SPEED_CONFIG_def
      parsePresetText_def customRangeAccepts_def js_ge_def js_le_def
      applyPlaybackRateToVideos_videos enforceVideo_def enforcerSkips_def
      clampRate_simps exceedsEpsilon_def js_gt_def Math_max_def Math_min_def)

text \<open>
  Claim C4 (master flag off). Applying a snapshot whose master flag is off
  (\<open>applySettingsImmediately\<close>) leaves the body without the master marker and without
  any of the eight feature markers, clears the filter and the blur marker of every image
  that carried the marker, so that no image carries it, and sets the rate of every video
  to 1; this holds for any values of the other flags and any prior document. The marker
  and blur part already holds after \<open>applyBodyFlags\<close> alone.
\<close>

theorem master_off_resets:
  "\<not> masterEnabled s \<Longrightarrow>
     bodyAttrs (doc (applySettingsImmediately s st)) ''data-ghostfeed-master-enabled'' = None
     \<and> (\<forall>(k, n) \<in> set BODY_FLAG_ATTRIBUTES. bodyAttrs (doc (applySettingsImmediately s st)) n = None)
     \<and> images (doc (applySettingsImmediately s st))
         = map (\<lambda>im. if img_blurred im then im\<lparr>img_filter := [], img_blurred := False\<rparr> else im)
               (images (doc st))
     \<and> (\<forall>im \<in> set (images (doc (applySettingsImmediately s st))). \<not> img_blurred im)
     \<and> videos (doc (applySettingsImmediately s st)) = map (\<lambda>video. Num 1) (videos (doc st))
     \<and> (\<forall>rate \<in> set (videos (doc (applySettingsImmediately s st))). rate = Num 1)
     \<and> bodyAttrs (applyBodyFlags s d) ''data-ghostfeed-master-enabled'' = None
     \<and> (\<forall>(k, n) \<in> set BODY_FLAG_ATTRIBUTES. bodyAttrs (applyBodyFlags s d) n = None)
     \<and> (\<forall>im \<in> set (images (applyBodyFlags s d)). \<not> img_blurred im)"
proof -
  assume off: "\<not> masterEnabled s"
  have master: "bodyAttrs (applyBodyFlags s d') ''data-ghostfeed-master-enabled'' = None" for d'
    using off by (simp add: applyBodyFlags_bodyAttrs)
  have feature: "bodyAttrs (applyBodyFlags s d') n = None"
    if "(k, n) \<in> set BODY_FLAG_ATTRIBUTES" for d' k n
  proof -
    from that have "map_of (map (\<lambda>(k, n). (n, k)) BODY_FLAG_ATTRIBUTES) n \<noteq> None"
      by (rule marker_lookup)
    with off show ?thesis
      by (auto simp: applyBodyFlags_bodyAttrs)
  qed
  have imgs: "images (applyBodyFlags s d') =
       map (\<lambda>im. if img_blurred im then im\<lparr>img_filter := [], img_blurred := False\<rparr> else im)
           (images d')" for d'
    using off by (simp add: applyBodyFlags_images_off)
  have clear: "\<forall>im \<in> set (images (applyBodyFlags s d')). \<not> img_blurred im" for d'
    unfolding imgs by auto
  have D: "doc (applySettingsImmediately s st) =
       (applyBodyFlags s (doc st))\<lparr>videos := map (\<lambda>video. Num 1) (videos (doc st))\<rparr>"
    using off by (rule applySettingsImmediately_off)
  have c1: "bodyAttrs (doc (applySettingsImmediately s st)) ''data-ghostfeed-master-enabled'' = None"
    unfolding D by (simp add: master)
  have c2: "\<forall>(k, n) \<in> set BODY_FLAG_ATTRIBUTES. bodyAttrs (doc (applySettingsImmediately s st)) n = None"
    unfolding D using feature by auto
  have c3: "images (doc (applySettingsImmediately s st))
         = map (\<lambda>im. if img_blurred im then im\<lparr>img_filter := [], img_blurred := False\<rparr> else im)
               (images (doc st))"
    unfolding D by (simp add: imgs)
  have c4: "\<forall>im \<in> set (images (doc (applySettingsImmediately s st))). \<not> img_blurred im"
    unfolding D using clear [of "doc st"] by simp
  have c5: "videos (doc (applySettingsImmediately s st)) = map (\<lambda>video. Num 1) (videos (doc st))"
    unfolding D by simp
  have c6: "\<forall>rate \<in> set (videos (doc (applySettingsImmediately s st))). rate = Num 1"
    unfolding c5 by simp
  have c8: "\<forall>(k, n) \<in> set BODY_FLAG_ATTRIBUTES. bodyAttrs (applyBodyFlags s d) n = None"
    using feature by auto
  from c1 c2 c3 c4 c5 c6 master [of d] c8 clear [of d] show ?thesis
    by blast
qed

theorem master_off_resets_witness:
  "\<not> masterEnabled masterOffSnapshot
   \<and> bodyAttrs (doc afterSelection) ''data-ghostfeed-hide-guide'' = Some ''true''
   \<and> bodyAttrs (doc (applySettingsImmediately masterOffSnapshot afterSelection))
        ''data-ghostfeed-hide-guide'' = None
   \<and> map img_blurred (images (doc afterSelection)) = [False, True]
   \<and> map img_blurred (images (doc (applySettingsImmediately masterOffSnapshot afterSelection)))
        = [False, False]
   \<and> map img_filter (images (doc (applySettingsImmediately masterOffSnapshot afterSelection)))
        = [[], []]
   \<and> videos (doc afterSelection) = [Num 2.5]
   \<and> videos (doc (applySettingsImmediately masterOffSnapshot afterSelection)) = [Num 1]"
  using master_off_resets [of masterOffSnapshot afterSelection examplePage]
  by (simp add: masterOffSnapshot_def DEFAULT_SETTINGS_def afterSelection_fields afterSelection_doc
      examplePage_def BODY_FLAG_ATTRIBUTES_def)

text \<open>
  Claim C5 (scenario A), as stated: after applying the default snapshot all feature
  markers would be present on the body. The default snapshot has \<open>hideGuide\<close> off, so
  the marker of that feature is absent (here it is removed from a page that had it).
\<close>

theorem default_markers_not_all_present:
  "(HideGuide, ''data-ghostfeed-hide-guide'') \<in> set BODY_FLAG_ATTRIBUTES
   \<and> ''data-ghostfeed-hide-guide'' \<notin> dom (bodyAttrs (applyBodyFlags DEFAULT_SETTINGS examplePage))"
  by (simp add: applyBodyFlags_bodyAttrs BODY_FLAG_ATTRIBUTES_def DEFAULT_SETTINGS_def dom_def)

text \<open>
  Claim C5, amended. The default snapshot has the master flag on and the blur flag off.
  After applying it no image carries the blur marker, the master marker is present, and
  a feature marker is present exactly when its flag is on in the default snapshot: the
  markers of hide-home, hide-shorts, hide-comments, hide-sidebar, hide-endscreen and
  hide-recs are present, those of hide-guide and blur-thumbs are absent.
\<close>

theorem default_markers:
  "masterEnabled DEFAULT_SETTINGS \<and> \<not> blurThumbs DEFAULT_SETTINGS
   \<and> (\<forall>im \<in> set (images (applyBodyFlags DEFAULT_SETTINGS d)). \<not> img_blurred im)
   \<and> bodyAttrs (applyBodyFlags DEFAULT_SETTINGS d) ''data-ghostfeed-master-enabled'' = Some ''true''
   \<and> (\<forall>(k, n) \<in> set BODY_FLAG_ATTRIBUTES.
         (n \<in> dom (bodyAttrs (applyBodyFlags DEFAULT_SETTINGS d))) = getFlag DEFAULT_SETTINGS k)
   \<and> bodyAttrs (applyBodyFlags DEFAULT_SETTINGS d) ''data-ghostfeed-hide-home'' = Some ''true''
   \<and> bodyAttrs (applyBodyFlags DEFAULT_SETTINGS d) ''data-ghostfeed-hide-shorts'' = Some ''true''
   \<and> bodyAttrs (applyBodyFlags DEFAULT_SETTINGS d) ''data-ghostfeed-hide-comments'' = Some ''true''
   \<and> bodyAttrs (applyBodyFlags DEFAULT_SETTINGS d) ''data-ghostfeed-hide-sidebar'' = Some ''true''
   \<and> bodyAttrs (applyBodyFlags DEFAULT_SETTINGS d) ''data-ghostfeed-hide-endscreen'' = Some ''true''
   \<and> bodyAttrs (applyBodyFlags DEFAULT_SETTINGS d) ''data-ghostfeed-hide-recs'' = Some ''true''
   \<and> bodyAttrs (applyBodyFlags DEFAULT_SETTINGS d) ''data-ghostfeed-hide-guide'' = None
   \<and> bodyAttrs (applyBodyFlags DEFAULT_SETTINGS d) ''data-ghostfeed-blur-thumbs'' = None"
proof -
  have imgs: "\<forall>im \<in> set (images (applyBodyFlags DEFAULT_SETTINGS d)). \<not> img_blurred im"
    by (auto simp: applyBodyFlags_images_off DEFAULT_SETTINGS_def)
  have attrs: "\<forall>(k, n) \<in> set BODY_FLAG_ATTRIBUTES.
         (n \<in> dom (bodyAttrs (applyBodyFlags DEFAULT_SETTINGS d))) = getFlag DEFAULT_SETTINGS k"
    by (simp add: applyBodyFlags_bodyAttrs BODY_FLAG_ATTRIBUTES_def DEFAULT_SETTINGS_def dom_def)
  have on: "bodyAttrs (applyBodyFlags DEFAULT_SETTINGS d) ''data-ghostfeed-hide-home'' = Some ''true''"
    "bodyAttrs (applyBodyFlags DEFAULT_SETTINGS d) ''data-ghostfeed-hide-shorts'' = Some ''true''"
    "bodyAttrs (applyBodyFlags DEFAULT_SETTINGS d) ''data-ghostfeed-hide-comments'' = Some ''true''"
    "bodyAttrs (applyBodyFlags DEFAULT_SETTINGS d) ''data-ghostfeed-hide-sidebar'' = Some ''true''"
    "bodyAttrs (applyBodyFlags DEFAULT_SETTINGS d) ''data-ghostfeed-hide-endscreen'' = Some ''true''"
    "bodyAttrs (applyBodyFlags DEFAULT_SETTINGS d) ''data-ghostfeed-hide-recs'' = Some ''true''"
    by (simp_all add: applyBodyFlags_bodyAttrs BODY_FLAG_ATTRIBUTES_def DEFAULT_SETTINGS_def)
  have off: "bodyAttrs (applyBodyFlags DEFAULT_SETTINGS d) ''data-ghostfeed-hide-guide'' = None"
    "bodyAttrs (applyBodyFlags DEFAULT_SETTINGS d) ''data-ghostfeed-blur-thumbs'' = None"
    by (simp_all add: applyBodyFlags_bodyAttrs BODY_FLAG_ATTRIBUTES_def DEFAULT_SETTINGS_def)
  have master: "bodyAttrs (applyBodyFlags DEFAULT_SETTINGS d) ''data-ghostfeed-master-enabled'' = Some ''true''"
    by (simp add: applyBodyFlags_bodyAttrs DEFAULT_SETTINGS_def)
  have flags: "masterEnabled DEFAULT_SETTINGS \<and> \<not> blurThumbs DEFAULT_SETTINGS"
    by (simp add: DEFAULT_SETTINGS_def)
  from flags imgs master attrs on off show ?thesis
    by blast
qed

theorem default_markers_witness:
  "map img_blurred (images (applyBodyFlags DEFAULT_SETTINGS examplePage)) = [False, False]
   \<and> bodyAttrs (applyBodyFlags DEFAULT_SETTINGS examplePage) ''data-ghostfeed-hide-home'' = Some ''true''
   \<and> bodyAttrs (applyBodyFlags DEFAULT_SETTINGS examplePage) ''data-ghostfeed-hide-guide'' = None
   \<and> bodyAttrs (applyBodyFlags DEFAULT_SETTINGS examplePage) ''data-ghostfeed-blur-thumbs'' = None
   \<and> bodyAttrs (applyBodyFlags DEFAULT_SETTINGS examplePage) ''class'' = Some ''watch''"
  using default_markers [of examplePage]
  by (simp add: applyBodyFlags_bodyAttrs applyBodyFlags_images_off BODY_FLAG_ATTRIBUTES_def
      DEFAULT_SETTINGS_def examplePage_def)

text \<open>
  Claim C6 (\<open>load\<close> never fails; every unset or unparsable key resolves to its default),
  at an input where the script departs from it. The declared default rate is 1. The
  synced storage reports an error on every call and the fallback storage throws, so the
  start-up load resolves with the defaults object itself (the \<open>catch\<close> of
  \<open>loadFromLocalStorageFallback\<close> returns \<open>DEFAULT_SETTINGS\<close>, where the \<open>try\<close> returns
  a copy). That object is now the current snapshot, and \<open>applySettingsImmediately\<close>
  writes the rate of the first video, 2, into it. From then on the defaults object holds
  the rate 2: the next load under the same conditions resolves with the rate 2, and a
  fallback read of a storage with no key set resolves the unset rate key to 2, not to
  1. A selection of 2.5x in the control writes 2.5 into the defaults object in the same
  way.
\<close>

theorem load_defaults_overwritten:
  "playbackRate DEFAULT_SETTINGS = Num 1
   \<and> initializeExtension js_parseFloat js_toString chromeErroring
         (initialState liveRatePage brokenStorage) = Some afterFailedLoad
   \<and> currentIsDefaults afterFailedLoad
   \<and> defaultsObject afterFailedLoad = DEFAULT_SETTINGS\<lparr>playbackRate := Num 2\<rparr>
   \<and> loadSettingsFromStorage js_parseFloat js_toString chromeErroring
         (defaultsObject afterFailedLoad) (localStorage afterFailedLoad)
       = Resolved (TheDefaults, brokenStorage)
   \<and> playbackRate (snapshotOf (defaultsObject afterFailedLoad) TheDefaults) = Num 2
   \<and> ls_items emptyStorage (storageKey PlaybackRate) = None
   \<and> loadFromLocalStorageFallback js_parseFloat (defaultsObject afterFailedLoad) emptyStorage
       = Fresh (DEFAULT_SETTINGS\<lparr>playbackRate := Num 2\<rparr>)
   \<and> defaultsObject afterFailedLoadSelection = DEFAULT_SETTINGS\<lparr>playbackRate := Num 2.5\<rparr>
   \<and> loadSettingsFromStorage js_parseFloat js_toString chromeErroring
         (defaultsObject afterFailedLoadSelection) (localStorage afterFailedLoadSelection)
       = Resolved (TheDefaults, brokenStorage)
   \<and> playbackRate (snapshotOf (defaultsObject afterFailedLoadSelection) TheDefaults) = Num 2.5"
proof -
  have "playbackRate DEFAULT_SETTINGS = Num 1"
    by (simp add: DEFAULT_SETTINGS_def)
  moreover have "ls_items emptyStorage (storageKey PlaybackRate) = None"
    by (simp add: emptyStorage_def)
  ultimately show ?thesis
    by (simp add: afterFailedLoad_init afterFailedLoad_fields afterFailedLoadSelection_fields
        load_broken fallback_empty snapshotOf_def)
qed




text \<open>
  Claim C8 (idempotence of reconciliation). For every snapshot and every document,
  applying \<open>applyBodyFlags\<close> twice with the same snapshot leaves the body with the same
  attributes, and so the same set of markers, as applying it once.
\<close>

theorem reconcile_idempotent:
  "bodyAttrs (applyBodyFlags s (applyBodyFlags s d)) = bodyAttrs (applyBodyFlags s d)
   \<and> dom (bodyAttrs (applyBodyFlags s (applyBodyFlags s d))) = dom (bodyAttrs (applyBodyFlags s d))"
proof -
  have "bodyAttrs (applyBodyFlags s (applyBodyFlags s d)) a = bodyAttrs (applyBodyFlags s d) a" for a
    by (simp add: applyBodyFlags_bodyAttrs split: option.splits)
  then have "bodyAttrs (applyBodyFlags s (applyBodyFlags s d)) = bodyAttrs (applyBodyFlags s d)"
    by (rule ext)
  then show ?thesis by simp
qed

text \<open>
  Claim C9 (snapshot never mutated in place), as stated: every operation would leave the
  current snapshot unchanged or replace it with a newly loaded one. \<open>setVideoSpeed\<close>
  loads nothing and overwrites the \<open>playbackRate\<close> field: from the default snapshot it
  makes the snapshot with rate 2.5, which is neither the old snapshot nor the snapshot a
  load returns in that environment.
\<close>

theorem snapshot_field_overwritten:
  "currentSettings (initialState examplePage emptyStorage) = DEFAULT_SETTINGS
   \<and> currentSettings (setVideoSpeed presetToString (chromeAnswering DEFAULT_SETTINGS) (Num 2.5) 0
                         (initialState examplePage emptyStorage))
       = DEFAULT_SETTINGS\<lparr>playbackRate := Num 2.5\<rparr>
   \<and> DEFAULT_SETTINGS\<lparr>playbackRate := Num 2.5\<rparr> \<noteq> DEFAULT_SETTINGS
   \<and> loadSettingsFromStorage parsePresetText presetToString (chromeAnswering DEFAULT_SETTINGS)
         DEFAULT_SETTINGS emptyStorage
       = Resolved (Fresh DEFAULT_SETTINGS,
                   saveToLocalStorageBackup presetToString DEFAULT_SETTINGS emptyStorage)"
proof -
  have "DEFAULT_SETTINGS\<lparr>playbackRate := Num 2.5\<rparr> \<noteq> DEFAULT_SETTINGS"
    by (simp add: DEFAULT_SETTINGS_def)
  moreover have "loadSettingsFromStorage parsePresetText presetToString
         (chromeAnswering DEFAULT_SETTINGS) DEFAULT_SETTINGS emptyStorage
       = Resolved (Fresh DEFAULT_SETTINGS,
                   saveToLocalStorageBackup presetToString DEFAULT_SETTINGS emptyStorage)"
    by (simp add: loadSettingsFromStorage_def isChromeStorageAvailable_def
        chromeAnswering_def Let_def storageSyncGet_allItems snapshotOf_def)
  ultimately show ?thesis
    by (simp add: setVideoSpeed_settings initialState_def examplePage_def js_le_def)
qed

text \<open>
  Claim C9, amended. The enforcement tick and the new-video handler leave the current
  snapshot unchanged. \<open>setVideoSpeed\<close> overwrites its \<open>playbackRate\<close> field with the
  selected speed when a video exists and the speed is a number greater than 0, and
  changes nothing else in it. \<open>applySettingsImmediately\<close> overwrites its \<open>playbackRate\<close>
  field with the first video's current rate when the applied snapshot has the master
  flag on and a rate that is falsy or 1 and a video exists, and changes nothing else in
  it. A change notification for an area other than \<open>sync\<close> changes nothing; one for
  \<open>sync\<close>, and the start-up, replace the snapshot by the loaded one, after which
  \<open>applySettingsImmediately\<close> may overwrite the rate as said (the change handler skips
  that within its grace window). No operation writes a flag field of the snapshot.
\<close>

theorem snapshot_updates:
  "currentSettings (applyPlaybackRateToVideos now target st) = currentSettings st
   \<and> currentSettings (watcherTick now st) = currentSettings st
   \<and> currentSettings (handleNewVideoDetected now st) = currentSettings st
   \<and> currentSettings (setVideoSpeed numberToString env speed now st) =
       (case videos (doc st) of
          [] \<Rightarrow> currentSettings st
        | video # rest \<Rightarrow>
            if isNaN speed \<or> js_le speed (Num 0) then currentSettings st
            else (currentSettings st)\<lparr>playbackRate := speed\<rparr>)
   \<and> currentSettings (applySettingsImmediately s st) =
       (case videos (doc st) of
          [] \<Rightarrow> currentSettings st
        | video # rest \<Rightarrow>
            if masterEnabled s \<and> \<not> (truthy (playbackRate s) \<and> js_strict_neq (playbackRate s) (Num 1))
            then (currentSettings st)\<lparr>playbackRate := video\<rparr>
            else currentSettings st)
   \<and> (area \<noteq> ''sync''
        \<longrightarrow> handleStorageChanges parseFloat numberToString env area now st = Some st)
   \<and> (\<exists>ref loaded ls' st'.
         loadSettingsFromStorage parseFloat numberToString env (defaultsObject st) (localStorage st)
           = Resolved (ref, ls')
         \<and> loaded = snapshotOf (defaultsObject st) ref
         \<and> handleStorageChanges parseFloat numberToString env ''sync'' now st = Some st'
         \<and> currentSettings st' =
             (if changeHandlerDefers (hasUserOverriddenSpeed st) (lastUserInteractionTimestamp st) now
              then loaded
              else case videos (doc st) of
                     [] \<Rightarrow> loaded
                   | video # rest \<Rightarrow>
                       if masterEnabled loaded
                          \<and> \<not> (truthy (playbackRate loaded)
                                \<and> js_strict_neq (playbackRate loaded) (Num 1))
                       then loaded\<lparr>playbackRate := video\<rparr>
                       else loaded))
   \<and> (\<exists>ref loaded ls' st'.
         loadSettingsFromStorage parseFloat numberToString env (defaultsObject st) (localStorage st)
           = Resolved (ref, ls')
         \<and> loaded = snapshotOf (defaultsObject st) ref
         \<and> initializeExtension parseFloat numberToString env st = Some st'
         \<and> currentSettings st' =
             (case videos (doc st) of
                [] \<Rightarrow> loaded
              | video # rest \<Rightarrow>
                  if masterEnabled loaded
                     \<and> \<not> (truthy (playbackRate loaded)
                           \<and> js_strict_neq (playbackRate loaded) (Num 1))
                  then loaded\<lparr>playbackRate := video\<rparr>
                  else loaded))"
proof -
  obtain ref ls' where
    load: "loadSettingsFromStorage parseFloat numberToString env (defaultsObject st) (localStorage st)
             = Resolved (ref, ls')"
    using load_resolves by blast
  define loaded where "loaded = snapshotOf (defaultsObject st) ref"
  have tick: "currentSettings (watcherTick now st) = currentSettings st"
    by (simp add: watcherTick_def applyPlaybackRateToVideos_settings)
  have other: "handleStorageChanges parseFloat numberToString env area now st = Some st"
    if "area \<noteq> ''sync''"
    using that by (simp add: handleStorageChanges_def)
  from handleStorageChanges_settings [OF load loaded_def, of now] load loaded_def
  have change: "\<exists>ref loaded ls' st'.
         loadSettingsFromStorage parseFloat numberToString env (defaultsObject st) (localStorage st)
           = Resolved (ref, ls')
         \<and> loaded = snapshotOf (defaultsObject st) ref
         \<and> handleStorageChanges parseFloat numberToString env ''sync'' now st = Some st'
         \<and> currentSettings st' =
             (if changeHandlerDefers (hasUserOverriddenSpeed st) (lastUserInteractionTimestamp st) now
              then loaded
              else case videos (doc st) of
                     [] \<Rightarrow> loaded
                   | video # rest \<Rightarrow>
                       if masterEnabled loaded
                          \<and> \<not> (truthy (playbackRate loaded)
                                \<and> js_strict_neq (playbackRate loaded) (Num 1))
                       then loaded\<lparr>playbackRate := video\<rparr>
                       else loaded)"
    by blast
  from initializeExtension_settings [OF load loaded_def] load loaded_def
  have init: "\<exists>ref loaded ls' st'.
         loadSettingsFromStorage parseFloat numberToString env (defaultsObject st) (localStorage st)
           = Resolved (ref, ls')
         \<and> loaded = snapshotOf (defaultsObject st) ref
         \<and> initializeExtension parseFloat numberToString env st = Some st'
         \<and> currentSettings st' =
             (case videos (doc st) of
                [] \<Rightarrow> loaded
              | video # rest \<Rightarrow>
                  if masterEnabled loaded
                     \<and> \<not> (truthy (playbackRate loaded)
                           \<and> js_strict_neq (playbackRate loaded) (Num 1))
                  then loaded\<lparr>playbackRate := video\<rparr>
                  else loaded)"
    by blast
  from tick other change init show ?thesis
    by (simp add: applyPlaybackRateToVideos_settings handleNewVideoDetected_settings
        setVideoSpeed_settings applySettingsImmediately_settings)
qed

theorem snapshot_updates_witness:
  "currentSettings (watcherTick 6000 afterSelection) = currentSettings afterSelection
   \<and> currentSettings (setVideoSpeed presetToString chromeMissing (Num 0.5) 7000 afterSelection)
       = DEFAULT_SETTINGS\<lparr>playbackRate := Num 0.5\<rparr>
   \<and> currentSettings (applySettingsImmediately DEFAULT_SETTINGS (initialState liveRatePage emptyStorage))
       = DEFAULT_SETTINGS\<lparr>playbackRate := Num 2\<rparr>
   \<and> ''local'' \<noteq> ''sync''
   \<and> handleStorageChanges parsePresetText presetToString chromeMissing ''local'' 100 afterSelection
       = Some afterSelection"
  using snapshot_updates [of 6000 "Num 1" afterSelection presetToString chromeMissing "Num 0.5"
      DEFAULT_SETTINGS "''local''" parsePresetText]
    snapshot_updates [of 7000 "Num 1" afterSelection presetToString chromeMissing "Num 0.5"
      DEFAULT_SETTINGS "''local''" parsePresetText]
    snapshot_updates [of 100 "Num 1" afterSelection presetToString chromeMissing "Num 0.5"
      DEFAULT_SETTINGS "''local''" parsePresetText]
    snapshot_updates [of 0 "Num 1" "initialState liveRatePage emptyStorage" presetToString
      chromeMissing "Num 0.5" DEFAULT_SETTINGS "''local''" parsePresetText]
  by (simp add: afterSelection_fields afterSelection_eq initialState_def liveRatePage_def js_le_def
      DEFAULT_SETTINGS_def js_strict_neq_def)

text \<open>
  Claim C10 (epsilon frame). The callback of the tick on one element: when the element's
  rate is not more than 0.01 away from the clamped target, the callback returns the
  override flag and the rate unchanged (whether or not the grace window applies and
  whatever the master flag); and when the callback changes the flag, the flag was set, is
  now cleared, and the rate was overwritten with the clamped target, a different value.
  For the whole tick: an element within 0.01 of the clamped target keeps its rate; the
  override flag changes only if it was set and some element's rate changed; and when all
  elements are within 0.01 the tick changes nothing.
\<close>

theorem epsilon_frame:
  "(\<not> exceedsEpsilon rate (clampRate target)
      \<longrightarrow> enforceVideo now lastTimestamp target hasOverride rate = (hasOverride, rate))
   \<and> (fst (enforceVideo now lastTimestamp target hasOverride rate) \<noteq> hasOverride
      \<longrightarrow> hasOverride \<and> \<not> fst (enforceVideo now lastTimestamp target hasOverride rate)
          \<and> snd (enforceVideo now lastTimestamp target hasOverride rate) = clampRate target
          \<and> snd (enforceVideo now lastTimestamp target hasOverride rate) \<noteq> rate)
   \<and> (\<forall>i < length (videos (doc st)).
         \<not> exceedsEpsilon (videos (doc st) ! i) (clampRate target)
         \<longrightarrow> videos (doc (applyPlaybackRateToVideos now target st)) ! i = videos (doc st) ! i)
   \<and> (hasUserOverriddenSpeed (applyPlaybackRateToVideos now target st) \<noteq> hasUserOverriddenSpeed st
      \<longrightarrow> hasUserOverriddenSpeed st
          \<and> videos (doc (applyPlaybackRateToVideos now target st)) \<noteq> videos (doc st))
   \<and> ((\<forall>rate \<in> set (videos (doc st)). \<not> exceedsEpsilon rate (clampRate target))
      \<longrightarrow> applyPlaybackRateToVideos now target st = st)"
proof -
  have one: "enforceVideo now lastTimestamp target hasOverride rate = (hasOverride, rate)"
    if "\<not> exceedsEpsilon rate (clampRate target)"
    using that by (rule enforceVideo_frame)
  have flag1: "hasOverride \<and> \<not> fst (enforceVideo now lastTimestamp target hasOverride rate)
          \<and> snd (enforceVideo now lastTimestamp target hasOverride rate) = clampRate target
          \<and> snd (enforceVideo now lastTimestamp target hasOverride rate) \<noteq> rate"
    if "fst (enforceVideo now lastTimestamp target hasOverride rate) \<noteq> hasOverride"
    using enforceVideo_flag [OF that] that exceedsEpsilon_neq [of rate "clampRate target"]
    by auto
  have elem: "videos (doc (applyPlaybackRateToVideos now target st)) ! i = videos (doc st) ! i"
    if "i < length (videos (doc st))" "\<not> exceedsEpsilon (videos (doc st) ! i) (clampRate target)"
    for i
    using that by (simp add: applyPlaybackRateToVideos_videos enforceVideos_frame)
  have flag: "hasUserOverriddenSpeed st
          \<and> videos (doc (applyPlaybackRateToVideos now target st)) \<noteq> videos (doc st)"
    if "hasUserOverriddenSpeed (applyPlaybackRateToVideos now target st) \<noteq> hasUserOverriddenSpeed st"
  proof (cases "masterEnabled (currentSettings st)")
    case False
    with that show ?thesis by (simp add: applyPlaybackRateToVideos_flag)
  next
    case True
    with that have "fst (enforceVideos now (lastUserInteractionTimestamp st) target
                  (hasUserOverriddenSpeed st) (videos (doc st))) \<noteq> hasUserOverriddenSpeed st"
      by (simp add: applyPlaybackRateToVideos_flag)
    from enforceVideos_flag [OF this] True show ?thesis
      by (auto simp: applyPlaybackRateToVideos_videos)
  qed
  have all: "applyPlaybackRateToVideos now target st = st"
    if a: "\<forall>rate \<in> set (videos (doc st)). \<not> exceedsEpsilon rate (clampRate target)"
  proof -
    have "enforceVideos now ts target ov vs = (ov, vs)"
      if "\<forall>rate \<in> set vs. \<not> exceedsEpsilon rate (clampRate target)" for ts ov vs
      using that by (induction vs) (simp_all add: enforceVideo_frame)
    with a show ?thesis
      by (simp add: applyPlaybackRateToVideos_same)
  qed
  from one flag1 elem flag all show ?thesis by blast
qed

theorem epsilon_frame_witness:
  "\<not> exceedsEpsilon (Num 2.5) (clampRate (Num 2.505))
   \<and> enforceVideo 6000 0 (Num 2.505) True (Num 2.5) = (True, Num 2.5)
   \<and> fst (enforceVideo 6000 0 (Num 1) True (Num 2.5)) \<noteq> True
   \<and> snd (enforceVideo 6000 0 (Num 1) True (Num 2.5)) = Num 1
   \<and> (0::nat) < length (videos (doc afterSelection))
   \<and> videos (doc (applyPlaybackRateToVideos 6000 (Num 2.505) afterSelection)) ! 0 = Num 2.5
   \<and> hasUserOverriddenSpeed (applyPlaybackRateToVideos 6000 (Num 1) afterSelection)
        \<noteq> hasUserOverriddenSpeed afterSelection
   \<and> videos (doc (applyPlaybackRateToVideos 6000 (Num 1) afterSelection)) \<noteq> videos (doc afterSelection)
   \<and> applyPlaybackRateToVideos 6000 (Num 2.505) afterSelection = afterSelection"
  using epsilon_frame [of "Num 2.5" "Num 2.505" 6000 0 True afterSelection]
        epsilon_frame [of "Num 2.5" "Num 1" 6000 0 True afterSelection]
  by (simp add: afterSelection_fields SPEED_CONFIG_def
      applyPlaybackRateToVideos_flag enforceVideo_def enforcerSkips_def
      clampRate_simps exceedsEpsilon_def js_gt_def)

end
